theory Spec2Isabelle
  imports Main
begin

section \<open>Go-Insight Go SDK: data model\<close>

text \<open>
  A shallow embedding of package \<open>goinsight\<close>: the types of \<open>models.go\<close>, the client and
  its transport (the client's source file: \<open>New\<close>, \<open>Log\<close>, \<open>LogInfo\<close>, \<open>LogError\<close>, \<open>SendMetric\<close>,
  \<open>sendRequestWithResponse\<close>, \<open>Instrument\<close>) and the trace lifecycle of \<open>tracing.go\<close>
  (\<open>StartTrace\<close>, \<open>StartSpan\<close>, \<open>FinishSpan\<close>, \<open>FinishTrace\<close>, \<open>GetTraceFromContext\<close>).

  Go has two ways of failing. An \<open>error\<close> is an ordinary return value; a panic unwinds the
  stack. Functions that cannot panic return their Go results; functions that can panic
  return \<open>panic + results\<close>, \<open>Inl\<close> being the panic.
\<close>

datatype error = Error string
  \<comment> \<open>a non-nil Go \<open>error\<close>, identified with the text its \<open>Error()\<close> method returns\<close>

fun Error_text :: "error \<Rightarrow> string" where
  "Error_text (Error s) = s"

datatype panic = Panic string
  \<comment> \<open>a run-time panic and its message\<close>

text \<open>
  Values of type \<open>interface{}\<close> as they occur in metadata maps and in decoded JSON
  documents. Numbers carry an integer; the client never computes with them.
\<close>

datatype any =
    ANil
  | ABool bool
  | ANumber int
  | AString string
  | AArray "any list"
  | AObject "(string \<times> any) list"

datatype float64 = Finite int int | PosInf | NegInf | NaN
  \<comment> \<open>\<open>Finite m e\<close> stands for \<open>m * 2^e\<close>; the client only passes such values on\<close>

type_synonym mapref = "nat option"
  \<comment> \<open>a \<open>map[string]interface{}\<close> value: \<open>None\<close> is the nil map, \<open>Some a\<close> refers to the map
      stored at address \<open>a\<close>\<close>

record Config =
  APIKey :: string
  Endpoint :: string
  ServiceName :: string
  Timeout :: int

record 'm LogEntry =
  ServiceName :: string
  LogLevel :: string
  Message :: string
  TraceID :: string
  SpanID :: string
  Metadata :: 'm

record MetricSource =
  Language :: string
  Framework :: string
  Version :: string

record 'm Metric =
  ServiceName :: string
  Path :: string
  Method :: string
  StatusCode :: int
  Duration :: float64
  Source :: MetricSource
  Environment :: string
  RequestID :: string
  Metadata :: 'm

record Trace =
  ID :: string
  ServiceName :: string

record Span =
  ID :: string
  TraceID :: string
  ParentID :: string
  Service :: string
  Operation :: string

record TraceContext =
  TraceID :: string
  SpanID :: string

text \<open>
  \<open>LogEntry\<close> and \<open>Metric\<close> hold a reference to their metadata map while they are Go
  values (\<open>mapref LogEntry\<close>) and the contents of that map once they are marshalled
  (\<open>(string \<rightharpoonup> any) LogEntry\<close>). The JSON tags say \<open>omitempty\<close>, so the nil map and the
  empty map marshal alike: both are \<open>Map.empty\<close> on the wire.
\<close>

datatype payload =
    LogData "mapref LogEntry"
  | MetricData "mapref Metric"
  | TraceData Trace
  | SpanData Span

datatype wire =
    LogBody "(string \<rightharpoonup> any) LogEntry"
  | MetricBody "(string \<rightharpoonup> any) Metric"
  | TraceBody Trace
  | SpanBody Span

record request =
  Method :: string
  URL :: string
  ContentType :: string
  XAPIKey :: string
  Body :: "wire option"

datatype response_body =
    Undecodable error
  | JsonNull
  | JsonObject "(string \<times> any) list"
  \<comment> \<open>what \<open>json.NewDecoder(resp.Body).Decode\<close> makes of the body when the target is a
      \<open>map[string]interface{}\<close>: an error (malformed or empty body, or a document that is
      neither an object nor \<open>null\<close>), \<open>null\<close>, or an object with its members in order\<close>

record response =
  StatusCode :: int
  Body :: response_body

subsection \<open>The world outside the client\<close>

text \<open>
  The standard library and the collector are parameters. \<open>json_Marshal_err\<close> is the error
  of \<open>json.Marshal\<close> on a payload (if any), \<open>http_NewRequest_err\<close> the error of
  \<open>http.NewRequest\<close> for a method and URL (if any), and \<open>http_Do\<close> what \<open>c.client.Do\<close> gives
  for a request, knowing the requests made before it: a transport error (network failure,
  time-out) or the collector's response. Theorems hold for every such environment.
\<close>

record env =
  json_Marshal_err :: "wire \<Rightarrow> error option"
  http_NewRequest_err :: "string \<Rightarrow> string \<Rightarrow> error option"
  http_Do :: "request list \<Rightarrow> request \<Rightarrow> error + response"

text \<open>
  The state the client reads and writes:
  \<^item> \<open>transport_calls\<close>: every call of \<open>sendRequestWithResponse\<close> (method, path and the
    payload as it stood), oldest first: what the client handed to its transport;
  \<^item> \<open>network_calls\<close>: the requests passed to \<open>c.client.Do\<close>, oldest first;
  \<^item> \<open>carriers\<close>: the heap of \<open>TraceContext\<close> objects, a \<open>*TraceContext\<close> being an index;
  \<^item> \<open>maps\<close>: the heap of \<open>map[string]interface{}\<close> objects;
  \<^item> \<open>clock\<close>: the reading \<open>time.Now()\<close> gives, in nanoseconds;
  \<^item> \<open>app\<close>: the state of the application, which only the application's functions touch.
  A non-nil Go pointer always refers to an allocated object, so addresses beyond the end
  of a heap do not arise.
\<close>

record 'a world =
  transport_calls :: "(string \<times> string \<times> wire option) list"
  network_calls :: "request list"
  carriers :: "TraceContext list"
  maps :: "(string \<rightharpoonup> any) list"
  clock :: int
  app :: 'a

definition new_TraceContext :: "TraceContext \<Rightarrow> 'a world \<Rightarrow> nat \<times> 'a world" where
  "new_TraceContext tc w = (length (carriers w), w\<lparr>carriers := carriers w @ [tc]\<rparr>)"

definition make_map :: "(string \<rightharpoonup> any) \<Rightarrow> 'a world \<Rightarrow> nat \<times> 'a world" where
  "make_map m w = (length (maps w), w\<lparr>maps := maps w @ [m]\<rparr>)"

definition map_assign :: "nat \<Rightarrow> string \<Rightarrow> any \<Rightarrow> 'a world \<Rightarrow> 'a world" where
  "map_assign a k v w = w\<lparr>maps := (maps w)[a := (maps w ! a)(k \<mapsto> v)]\<rparr>"

definition map_contents :: "'a world \<Rightarrow> mapref \<Rightarrow> (string \<rightharpoonup> any)" where
  "map_contents w r = (case r of None \<Rightarrow> Map.empty | Some a \<Rightarrow> maps w ! a)"

subsection \<open>Contexts\<close>

datatype ctx_key = StringKey string | OtherKey nat

datatype ctx_value = TraceContextPtr "nat option" | OtherValue any
  \<comment> \<open>a \<open>*TraceContext\<close> (\<open>None\<close>: the nil pointer) or a value of any other type\<close>

datatype Context = Background | WithValue Context ctx_key ctx_value

fun Value :: "Context \<Rightarrow> ctx_key \<Rightarrow> ctx_value option" where
  "Value Background k = None"
| "Value (WithValue parent k' v) k = (if k = k' then Some v else Value parent k)"

text \<open>
  \<open>GetTraceFromContext\<close>: the checked type assertion \<open>ctx.Value(...).(*TraceContext)\<close>
  yields the pointer when the value has that type, and nil otherwise.
\<close>

definition GetTraceFromContext :: "Context \<Rightarrow> nat option" where
  "GetTraceFromContext ctx =
     (case Value ctx (StringKey ''go-insight-trace'') of
        Some (TraceContextPtr traceCtx) \<Rightarrow> traceCtx
      | _ \<Rightarrow> None)"

subsection \<open>Formatting\<close>

text \<open>\<open>%d\<close> of \<open>fmt\<close>: the decimal digits of an integer.\<close>

function show_nat :: "nat \<Rightarrow> string" where
  "show_nat n =
     (if n < 10 then [''0123456789'' ! n]
      else show_nat (n div 10) @ [''0123456789'' ! (n mod 10)])"
  by pat_completeness auto
termination
  by (relation "measure id") auto

definition show_int :: "int \<Rightarrow> string" where
  "show_int i = (if i < 0 then CHR ''-'' # show_nat (nat (- i)) else show_nat (nat i))"

definition Errorf_wrap :: "string \<Rightarrow> error \<Rightarrow> error" where
  \<comment> \<open>\<open>fmt.Errorf(prefix + ": %w", err)\<close>\<close>
  "Errorf_wrap prefix err = Error (prefix @ '': '' @ Error_text err)"

section \<open>The client\<close>

record http_Client =
  Timeout :: int

record Client =
  apiKey :: string
  endpoint :: string
  client :: http_Client
  serviceName :: string

definition New :: "Config \<Rightarrow> Client" where
  "New config =
     (let config = (if Config.Timeout config = 0
                    then config\<lparr>Config.Timeout := 5 * 1000000000\<rparr> else config)
      in \<lparr>apiKey = APIKey config,
          endpoint = Endpoint config,
          client = \<lparr>http_Client.Timeout = Config.Timeout config\<rparr>,
          serviceName = Config.ServiceName config\<rparr>)"

subsection \<open>Transport\<close>

text \<open>What \<open>json.Marshal\<close> reads: the payload with its metadata map dereferenced.\<close>

fun snapshot :: "'a world \<Rightarrow> payload \<Rightarrow> wire" where
  "snapshot w (LogData e) =
     LogBody \<lparr>LogEntry.ServiceName = LogEntry.ServiceName e, LogLevel = LogLevel e,
              Message = Message e, TraceID = LogEntry.TraceID e, SpanID = LogEntry.SpanID e,
              Metadata = map_contents w (LogEntry.Metadata e)\<rparr>"
| "snapshot w (MetricData m) =
     MetricBody \<lparr>Metric.ServiceName = Metric.ServiceName m, Path = Path m,
                 Method = Metric.Method m, StatusCode = Metric.StatusCode m,
                 Duration = Duration m, Source = Source m, Environment = Environment m,
                 RequestID = RequestID m, Metadata = map_contents w (Metric.Metadata m)\<rparr>"
| "snapshot w (TraceData t) = TraceBody t"
| "snapshot w (SpanData s) = SpanBody s"

fun Decode :: "response_body \<Rightarrow> error + (string \<rightharpoonup> any)" where
  "Decode (Undecodable err) = Inl err"
| "Decode JsonNull = Inr Map.empty"
| "Decode (JsonObject members) = Inr (map_of (rev members))"
  \<comment> \<open>of two members with one key the later wins; \<open>null\<close> leaves the map nil, which reads
      like the empty map\<close>

text \<open>
  \<open>sendRequestWithResponse(method, path, data, response)\<close>. \<open>data\<close> is \<open>None\<close> for Go's
  \<open>nil\<close>; \<open>response\<close> says whether a map to decode into was passed. The result is the
  returned error and the map that \<open>response\<close> points to afterwards.
\<close>

definition sendRequestWithResponse ::
  "env \<Rightarrow> Client \<Rightarrow> string \<Rightarrow> string \<Rightarrow> payload option \<Rightarrow> bool \<Rightarrow> 'a world
     \<Rightarrow> (error option \<times> (string \<rightharpoonup> any)) \<times> 'a world" where
  "sendRequestWithResponse e c method path data response w =
     (let body = map_option (snapshot w) data;
          w0 = w\<lparr>transport_calls := transport_calls w @ [(method, path, body)]\<rparr>
      in case (case body of None \<Rightarrow> None | Some b \<Rightarrow> json_Marshal_err e b) of
           Some err \<Rightarrow> ((Some (Errorf_wrap ''failed to marshal request'' err), Map.empty), w0)
         | None \<Rightarrow>
             (case http_NewRequest_err e method (endpoint c @ path) of
                Some err \<Rightarrow>
                  ((Some (Errorf_wrap ''failed to create request'' err), Map.empty), w0)
              | None \<Rightarrow>
                  (let req = \<lparr>request.Method = method, URL = endpoint c @ path,
                              ContentType = ''application/json'', XAPIKey = apiKey c,
                              Body = body\<rparr>;
                       w1 = w0\<lparr>network_calls := network_calls w0 @ [req]\<rparr>
                   in case http_Do e (network_calls w0) req of
                        Inl err \<Rightarrow>
                          ((Some (Errorf_wrap ''failed to send request'' err), Map.empty), w1)
                      | Inr resp \<Rightarrow>
                          if response.StatusCode resp < 200 \<or> response.StatusCode resp \<ge> 300
                          then ((Some (Error (''API request failed with status '' @
                                         show_int (response.StatusCode resp))), Map.empty), w1)
                          else if response
                          then (case Decode (response.Body resp) of
                                  Inl err \<Rightarrow>
                                    ((Some (Errorf_wrap ''failed to decode response'' err),
                                      Map.empty), w1)
                                | Inr m \<Rightarrow> ((None, m), w1))
                          else ((None, Map.empty), w1))))"

definition sendRequest ::
  "env \<Rightarrow> Client \<Rightarrow> string \<Rightarrow> string \<Rightarrow> payload option \<Rightarrow> 'a world
     \<Rightarrow> error option \<times> 'a world" where
  "sendRequest e c method path data w =
     (case sendRequestWithResponse e c method path data False w of
        ((err, _), w') \<Rightarrow> (err, w'))"

definition sendLog :: "env \<Rightarrow> Client \<Rightarrow> mapref LogEntry \<Rightarrow> 'a world \<Rightarrow> error option \<times> 'a world" where
  "sendLog e c entry w = sendRequest e c ''POST'' ''/logs'' (Some (LogData entry)) w"

definition sendMetric :: "env \<Rightarrow> Client \<Rightarrow> mapref Metric \<Rightarrow> 'a world \<Rightarrow> error option \<times> 'a world" where
  "sendMetric e c metric w = sendRequest e c ''POST'' ''/metrics'' (Some (MetricData metric)) w"

definition sendTrace ::
  "env \<Rightarrow> Client \<Rightarrow> Trace \<Rightarrow> 'a world \<Rightarrow> ((string \<rightharpoonup> any) \<times> error option) \<times> 'a world" where
  "sendTrace e c trace w =
     (case sendRequestWithResponse e c ''POST'' ''/traces'' (Some (TraceData trace)) True w of
        ((err, resp), w') \<Rightarrow> ((resp, err), w'))"

definition sendSpan ::
  "env \<Rightarrow> Client \<Rightarrow> Span \<Rightarrow> 'a world \<Rightarrow> ((string \<rightharpoonup> any) \<times> error option) \<times> 'a world" where
  "sendSpan e c span w =
     (case sendRequestWithResponse e c ''POST'' ''/spans'' (Some (SpanData span)) True w of
        ((err, resp), w') \<Rightarrow> ((resp, err), w'))"

definition endSpan :: "env \<Rightarrow> Client \<Rightarrow> string \<Rightarrow> 'a world \<Rightarrow> error option \<times> 'a world" where
  "endSpan e c spanID w = sendRequest e c ''POST'' (''/spans/'' @ spanID @ ''/end'') None w"

definition endTrace :: "env \<Rightarrow> Client \<Rightarrow> string \<Rightarrow> 'a world \<Rightarrow> error option \<times> 'a world" where
  "endTrace e c traceID w = sendRequest e c ''POST'' (''/traces/'' @ traceID @ ''/end'') None w"

subsection \<open>Logging and metrics\<close>

definition Log ::
  "env \<Rightarrow> Client \<Rightarrow> Context \<Rightarrow> string \<Rightarrow> string \<Rightarrow> mapref \<Rightarrow> 'a world
     \<Rightarrow> error option \<times> 'a world" where
  "Log e c ctx level message metadata w =
     (let traceCtx = GetTraceFromContext ctx;
          entry = \<lparr>LogEntry.ServiceName = serviceName c, LogLevel = level,
                    Message = message, TraceID = [], SpanID = [], Metadata = metadata\<rparr>;
          entry = (case traceCtx of
                     Some p \<Rightarrow>
                       entry\<lparr>LogEntry.TraceID := TraceContext.TraceID (carriers w ! p),
                             LogEntry.SpanID := TraceContext.SpanID (carriers w ! p)\<rparr>
                   | None \<Rightarrow> entry)
      in sendLog e c entry w)"

text \<open>The variadic \<open>metadata ...map[string]interface{}\<close> is a list of map values.\<close>

definition LogInfo ::
  "env \<Rightarrow> Client \<Rightarrow> Context \<Rightarrow> string \<Rightarrow> mapref list \<Rightarrow> 'a world \<Rightarrow> error option \<times> 'a world" where
  "LogInfo e c ctx message metadata w =
     (let meta = (if length metadata > 0 then metadata ! 0 else None)
      in Log e c ctx ''INFO'' message meta w)"

definition LogWarn ::
  "env \<Rightarrow> Client \<Rightarrow> Context \<Rightarrow> string \<Rightarrow> mapref list \<Rightarrow> 'a world \<Rightarrow> error option \<times> 'a world" where
  "LogWarn e c ctx message metadata w =
     (let meta = (if length metadata > 0 then metadata ! 0 else None)
      in Log e c ctx ''WARN'' message meta w)"

definition LogDebug ::
  "env \<Rightarrow> Client \<Rightarrow> Context \<Rightarrow> string \<Rightarrow> mapref list \<Rightarrow> 'a world \<Rightarrow> error option \<times> 'a world" where
  "LogDebug e c ctx message metadata w =
     (let meta = (if length metadata > 0 then metadata ! 0 else None)
      in Log e c ctx ''DEBUG'' message meta w)"

text \<open>
  The variadic \<open>errAndMetadata ...interface{}\<close> of \<open>LogError\<close>: a value that implements
  \<open>error\<close>, a \<open>map[string]interface{}\<close> (possibly the nil map), or anything else. The
  type switch of the loop assigns on every match.
\<close>

datatype arg = ArgError error | ArgMap mapref | ArgOther any

fun scan_args :: "arg list \<Rightarrow> error option \<Rightarrow> mapref \<Rightarrow> error option \<times> mapref" where
  "scan_args [] err metadata = (err, metadata)"
| "scan_args (ArgError v # rest) err metadata = scan_args rest (Some v) metadata"
| "scan_args (ArgMap v # rest) err metadata = scan_args rest err v"
| "scan_args (ArgOther v # rest) err metadata = scan_args rest err metadata"

definition LogError ::
  "env \<Rightarrow> Client \<Rightarrow> Context \<Rightarrow> string \<Rightarrow> arg list \<Rightarrow> 'a world \<Rightarrow> error option \<times> 'a world" where
  "LogError e c ctx message errAndMetadata w =
     (case scan_args errAndMetadata None None of
        (err, metadata) \<Rightarrow>
          (case (case metadata of
                   None \<Rightarrow> make_map Map.empty w
                 | Some a \<Rightarrow> (a, w)) of
             (metadata, w1) \<Rightarrow>
               (let w2 = (case err of
                            Some v \<Rightarrow> map_assign metadata ''error'' (AString (Error_text v)) w1
                          | None \<Rightarrow> w1)
                in Log e c ctx ''ERROR'' message (Some metadata) w2)))"

definition SendMetric :: "env \<Rightarrow> Client \<Rightarrow> mapref Metric \<Rightarrow> 'a world \<Rightarrow> error option \<times> 'a world" where
  "SendMetric e c metric w =
     (let metric = (if Metric.ServiceName metric = []
                    then metric\<lparr>Metric.ServiceName := serviceName c\<rparr> else metric)
      in sendMetric e c metric w)"

section \<open>Trace lifecycle (tracing.go)\<close>

text \<open>
  The unchecked type assertion \<open>resp["id"].(string)\<close>: a missing key reads as the nil
  interface, and anything but a string panics.
\<close>

fun type_name :: "any \<Rightarrow> string" where
  "type_name ANil = ''nil''"
| "type_name (ABool b) = ''bool''"
| "type_name (ANumber n) = ''float64''"
| "type_name (AString s) = ''string''"
| "type_name (AArray xs) = ''[]interface {}''"
| "type_name (AObject kvs) = ''map[string]interface {}''"

definition assert_string :: "any option \<Rightarrow> panic + string" where
  "assert_string v =
     (case (case v of None \<Rightarrow> ANil | Some x \<Rightarrow> x) of
        AString s \<Rightarrow> Inr s
      | x \<Rightarrow> Inl (Panic (''interface conversion: interface {} is '' @ type_name x @
                          '', not string'')))"

definition StartTrace ::
  "env \<Rightarrow> Client \<Rightarrow> Context \<Rightarrow> string \<Rightarrow> 'a world
     \<Rightarrow> (panic + Context \<times> nat option \<times> error option) \<times> 'a world" where
  "StartTrace e c ctx operation w =
     (let trace = \<lparr>Trace.ID = [], ServiceName = serviceName c\<rparr>
      in case sendTrace e c trace w of
           ((resp, Some err), w1) \<Rightarrow> (Inr (ctx, None, Some err), w1)
         | ((resp, None), w1) \<Rightarrow>
             (case assert_string (resp ''id'') of
                Inl p \<Rightarrow> (Inl p, w1)
              | Inr traceID \<Rightarrow>
                  (case new_TraceContext \<lparr>TraceContext.TraceID = traceID, SpanID = []\<rparr> w1 of
                     (traceCtx, w2) \<Rightarrow>
                       (let span = \<lparr>Span.ID = [],
                                    TraceID = TraceContext.TraceID (carriers w2 ! traceCtx),
                                    ParentID = [], Service = serviceName c,
                                    Operation = operation\<rparr>
                        in case sendSpan e c span w2 of
                             ((spanResp, Some err), w3) \<Rightarrow>
                               (Inr (ctx, Some traceCtx, Some err), w3)
                           | ((spanResp, None), w3) \<Rightarrow>
                               (case assert_string (spanResp ''id'') of
                                  Inl p \<Rightarrow> (Inl p, w3)
                                | Inr spanID \<Rightarrow>
                                    (let w4 = w3\<lparr>carriers := (carriers w3)
                                                [traceCtx := (carriers w3 ! traceCtx)
                                                   \<lparr>TraceContext.SpanID := spanID\<rparr>]\<rparr>;
                                         newCtx = WithValue ctx (StringKey ''go-insight-trace'')
                                                    (TraceContextPtr (Some traceCtx))
                                     in (Inr (newCtx, Some traceCtx, None), w4)))))))"

definition StartSpan ::
  "env \<Rightarrow> Client \<Rightarrow> Context \<Rightarrow> string \<Rightarrow> 'a world
     \<Rightarrow> (panic + Context \<times> error option) \<times> 'a world" where
  "StartSpan e c ctx operation w =
     (case GetTraceFromContext ctx of
        None \<Rightarrow> (Inr (ctx, Some (Error ''no trace context found'')), w)
      | Some traceCtx \<Rightarrow>
          (let span = \<lparr>Span.ID = [],
                       TraceID = TraceContext.TraceID (carriers w ! traceCtx),
                       ParentID = TraceContext.SpanID (carriers w ! traceCtx),
                       Service = serviceName c, Operation = operation\<rparr>
           in case sendSpan e c span w of
                ((resp, Some err), w1) \<Rightarrow> (Inr (ctx, Some err), w1)
              | ((resp, None), w1) \<Rightarrow>
                  (case assert_string (resp ''id'') of
                     Inl p \<Rightarrow> (Inl p, w1)
                   | Inr spanID \<Rightarrow>
                       (case new_TraceContext
                               \<lparr>TraceContext.TraceID =
                                  TraceContext.TraceID (carriers w1 ! traceCtx),
                                SpanID = spanID\<rparr> w1 of
                          (newTraceCtx, w2) \<Rightarrow>
                            (Inr (WithValue ctx (StringKey ''go-insight-trace'')
                                    (TraceContextPtr (Some newTraceCtx)), None), w2)))))"

definition FinishSpan :: "env \<Rightarrow> Client \<Rightarrow> Context \<Rightarrow> 'a world \<Rightarrow> error option \<times> 'a world" where
  "FinishSpan e c ctx w =
     (case GetTraceFromContext ctx of
        None \<Rightarrow> (Some (Error ''no trace context found''), w)
      | Some traceCtx \<Rightarrow> endSpan e c (TraceContext.SpanID (carriers w ! traceCtx)) w)"

definition FinishTrace :: "env \<Rightarrow> Client \<Rightarrow> Context \<Rightarrow> 'a world \<Rightarrow> error option \<times> 'a world" where
  "FinishTrace e c ctx w =
     (case GetTraceFromContext ctx of
        None \<Rightarrow> (Some (Error ''no trace context found''), w)
      | Some traceCtx \<Rightarrow> endTrace e c (TraceContext.TraceID (carriers w ! traceCtx)) w)"

section \<open>The instrumentation wrapper\<close>

text \<open>
  \<open>time.Since(start)\<close> is the difference of two clock readings, saturated to the range of
  a \<open>time.Duration\<close> (an \<open>int64\<close> of nanoseconds); \<open>Milliseconds\<close> divides by \<open>1e6\<close>,
  truncating towards zero.
\<close>

definition Since :: "int \<Rightarrow> int \<Rightarrow> int" where
  "Since now start = max (- (2 ^ 63)) (min (2 ^ 63 - 1) (now - start))"

definition Milliseconds :: "int \<Rightarrow> int" where
  "Milliseconds d = (if d < 0 then - ((- d) div 1000000) else d div 1000000)"

text \<open>The deferred closure of \<open>Instrument\<close>.\<close>

definition Instrument_deferred ::
  "env \<Rightarrow> Client \<Rightarrow> string \<Rightarrow> Context \<Rightarrow> 'a world \<Rightarrow> 'a world" where
  "Instrument_deferred e c operation spanCtx w =
     (case FinishSpan e c spanCtx w of
        (Some err, w1) \<Rightarrow>
          (case make_map [''operation'' \<mapsto> AString operation] w1 of
             (m, w2) \<Rightarrow>
               snd (LogError e c spanCtx ''Failed to finish span''
                      [ArgError err, ArgMap (Some m)] w2))
      | (None, w1) \<Rightarrow> w1)"

text \<open>
  The block "Log operation result" of \<open>Instrument\<close>: an ERROR log with the error of \<open>fn\<close>
  or an INFO log, each with a fresh metadata map. The results of \<open>LogError\<close> and
  \<open>LogInfo\<close> are dropped.
\<close>

definition Instrument_log_result ::
  "env \<Rightarrow> Client \<Rightarrow> string \<Rightarrow> Context \<Rightarrow> error option \<Rightarrow> int \<Rightarrow> 'a world \<Rightarrow> 'a world" where
  "Instrument_log_result e c operation spanCtx fnErr duration w =
     (case fnErr of
        Some err \<Rightarrow>
          (case make_map [''operation'' \<mapsto> AString operation,
                  ''duration_ms'' \<mapsto> ANumber (Milliseconds duration)] w of
             (m, w') \<Rightarrow>
               snd (LogError e c spanCtx (''Operation failed: '' @ operation)
                      [ArgError err, ArgMap (Some m)] w'))
      | None \<Rightarrow>
          (case make_map [''operation'' \<mapsto> AString operation,
                  ''duration_ms'' \<mapsto> ANumber (Milliseconds duration)] w of
             (m, w') \<Rightarrow>
               snd (LogInfo e c spanCtx (''Operation completed: '' @ operation) [Some m] w')))"

text \<open>
  \<open>Instrument(operation, fn)\<close> returns a closure; here it is the function of the context
  and the world that remains after \<open>operation\<close> and \<open>fn\<close> are given. \<open>fn\<close> is any Go
  function: it may change the world, return an error or nil, or panic. A panic of
  \<open>StartSpan\<close> leaves the closure before the \<open>defer\<close> statement is reached; a panic of
  \<open>fn\<close> runs the deferred closure and goes on.
\<close>

definition Instrument ::
  "env \<Rightarrow> Client \<Rightarrow> string \<Rightarrow> (Context \<Rightarrow> 'a world \<Rightarrow> (panic + error option) \<times> 'a world)
     \<Rightarrow> Context \<Rightarrow> 'a world \<Rightarrow> (panic + error option) \<times> 'a world" where
  "Instrument e c operation fn ctx w =
     (case StartSpan e c ctx operation w of
        (Inl p, w1) \<Rightarrow> (Inl p, w1)
      | (Inr (spanCtx, err), w1) \<Rightarrow>
          (let spanCtx = (if err \<noteq> None then ctx else spanCtx);
               start = clock w1
           in case fn spanCtx w1 of
                (Inl p, w2) \<Rightarrow> (Inl p, Instrument_deferred e c operation spanCtx w2)
              | (Inr fnErr, w2) \<Rightarrow>
                  (let duration = Since (clock w2) start;
                       w3 = Instrument_log_result e c operation spanCtx fnErr duration w2
                   in (Inr fnErr, Instrument_deferred e c operation spanCtx w3))))"

section \<open>A stub collector and observations\<close>

text \<open>
  A collector that answers the \<open>n\<close>-th request it receives with the \<open>n\<close>-th entry of a
  script, and refuses the connection once the script is used up. Request creation
  succeeds; marshalling fails, as \<open>encoding/json\<close> does, on a metric whose duration is
  not a number or is infinite, and succeeds otherwise.
\<close>

fun unsupported_value :: "wire \<Rightarrow> error option" where
  "unsupported_value (MetricBody m) =
     (case Duration m of
        Finite mantissa exponent \<Rightarrow> None
      | PosInf \<Rightarrow> Some (Error ''json: unsupported value: +Inf'')
      | NegInf \<Rightarrow> Some (Error ''json: unsupported value: -Inf'')
      | NaN \<Rightarrow> Some (Error ''json: unsupported value: NaN''))"
| "unsupported_value b = None"

definition stub :: "(error + response) list \<Rightarrow> env" where
  "stub script =
     \<lparr>json_Marshal_err = unsupported_value,
      http_NewRequest_err = (\<lambda>m u. None),
      http_Do = (\<lambda>history req.
                   if length history < length script then script ! length history
                   else Inl (Error ''connection refused''))\<rparr>"

definition ok_json :: "(string \<times> any) list \<Rightarrow> error + response" where
  "ok_json members = Inr \<lparr>response.StatusCode = 200, Body = JsonObject members\<rparr>"

definition status :: "int \<Rightarrow> error + response" where
  "status code = Inr \<lparr>response.StatusCode = code, Body = Undecodable (Error ''EOF'')\<rparr>"

definition demo_client :: Client where
  "demo_client =
     New \<lparr>APIKey = ''key'', Endpoint = ''http://collector'', ServiceName = ''svc'', Timeout = 0\<rparr>"

definition fresh_world :: "nat world" where
  "fresh_world = \<lparr>transport_calls = [], network_calls = [], carriers = [], maps = [],
                   clock = 0, app = 0\<rparr>"

text \<open>The log entries among a list of transport calls, and those of one level.\<close>

fun log_entries :: "(string \<times> string \<times> wire option) list \<Rightarrow> (string \<rightharpoonup> any) LogEntry list" where
  "log_entries [] = []"
| "log_entries ((method, path, Some (LogBody entry)) # calls) = entry # log_entries calls"
| "log_entries (call # calls) = log_entries calls"

definition logs_at :: "string \<Rightarrow> (string \<times> string \<times> wire option) list \<Rightarrow> (string \<rightharpoonup> any) LogEntry list" where
  "logs_at level calls = filter (\<lambda>entry. LogLevel entry = level) (log_entries calls)"

text \<open>The error values and the map values of a variadic tail, in order.\<close>

fun errors_of :: "arg list \<Rightarrow> error list" where
  "errors_of [] = []"
| "errors_of (ArgError v # rest) = v # errors_of rest"
| "errors_of (a # rest) = errors_of rest"

fun maps_of :: "arg list \<Rightarrow> mapref list" where
  "maps_of [] = []"
| "maps_of (ArgMap v # rest) = v # maps_of rest"
| "maps_of (a # rest) = maps_of rest"

text \<open>
  The request that \<open>sendRequestWithResponse\<close> builds for a method, a path and a marshalled
  payload, and the requests that one call of the transport passes to \<open>c.client.Do\<close>: that
  request when the payload marshals and the request can be created, and none otherwise.
\<close>

definition http_request :: "Client \<Rightarrow> string \<Rightarrow> string \<Rightarrow> wire option \<Rightarrow> request" where
  "http_request c mth pth body =
     \<lparr>request.Method = mth, URL = endpoint c @ pth, ContentType = ''application/json'',
      XAPIKey = apiKey c, Body = body\<rparr>"

definition marshals :: "env \<Rightarrow> wire option \<Rightarrow> bool" where
  "marshals e body = (case body of None \<Rightarrow> True | Some b \<Rightarrow> json_Marshal_err e b = None)"

definition delivered :: "env \<Rightarrow> Client \<Rightarrow> string \<times> string \<times> wire option \<Rightarrow> request list" where
  "delivered e c call =
     (case call of
        (mth, pth, body) \<Rightarrow>
          if marshals e body \<and> http_NewRequest_err e mth (endpoint c @ pth) = None
          then [http_request c mth pth body] else [])"

text \<open>
  What the variadic tail of \<open>LogError\<close> amounts to: the last error value, if there is
  one, and the last map value, if there is one.
\<close>

definition selected :: "arg list \<Rightarrow> arg list" where
  "selected args =
     (if errors_of args = [] then [] else [ArgError (last (errors_of args))]) @
     (if maps_of args = [] then [] else [ArgMap (last (maps_of args))])"

text \<open>
  The log entry of the data model: service name, level, message and metadata, qualified
  by the trace id and span id of the Carrier that \<open>ctx\<close> holds, as the heap of \<open>w\<close> has
  it, and unqualified when \<open>ctx\<close> holds none.
\<close>

definition entry_at ::
  "Client \<Rightarrow> Context \<Rightarrow> 'a world \<Rightarrow> string \<Rightarrow> string \<Rightarrow> (string \<rightharpoonup> any)
     \<Rightarrow> (string \<rightharpoonup> any) LogEntry" where
  "entry_at c ctx w level message metadata =
     \<lparr>LogEntry.ServiceName = serviceName c, LogLevel = level, Message = message,
      TraceID = (case GetTraceFromContext ctx of
                   None \<Rightarrow> [] | Some p \<Rightarrow> TraceContext.TraceID (carriers w ! p)),
      SpanID = (case GetTraceFromContext ctx of
                  None \<Rightarrow> [] | Some p \<Rightarrow> TraceContext.SpanID (carriers w ! p)),
      Metadata = metadata\<rparr>"

text \<open>
  The completion log of the wrapper as the specification words it: INFO with the
  duration when the operation succeeded, ERROR with the duration and the failure when it
  failed; and the ERROR log that reports a failure to finish the span.
\<close>

definition completion_entry ::
  "Client \<Rightarrow> Context \<Rightarrow> 'a world \<Rightarrow> string \<Rightarrow> int \<Rightarrow> error option \<Rightarrow> (string \<rightharpoonup> any) LogEntry" where
  "completion_entry c ctx w operation ms fnErr =
     (case fnErr of
        None \<Rightarrow>
          entry_at c ctx w ''INFO'' (''Operation completed: '' @ operation)
            [''operation'' \<mapsto> AString operation, ''duration_ms'' \<mapsto> ANumber ms]
      | Some err \<Rightarrow>
          entry_at c ctx w ''ERROR'' (''Operation failed: '' @ operation)
            [''operation'' \<mapsto> AString operation, ''duration_ms'' \<mapsto> ANumber ms,
             ''error'' \<mapsto> AString (Error_text err)])"

definition finish_failure_entry ::
  "Client \<Rightarrow> Context \<Rightarrow> 'a world \<Rightarrow> string \<Rightarrow> error \<Rightarrow> (string \<rightharpoonup> any) LogEntry" where
  "finish_failure_entry c ctx w operation err =
     entry_at c ctx w ''ERROR'' ''Failed to finish span''
       [''operation'' \<mapsto> AString operation, ''error'' \<mapsto> AString (Error_text err)]"

text \<open>
  Two application functions: one takes 2.5 ms and succeeds, one takes as long and
  returns an error. Each counts its calls in the application state.
\<close>

definition succeed :: "Context \<Rightarrow> nat world \<Rightarrow> (panic + error option) \<times> nat world" where
  "succeed ctx w = (Inr None, w\<lparr>clock := clock w + 2500000, app := app w + 1\<rparr>)"

definition fail_with ::
  "error \<Rightarrow> Context \<Rightarrow> nat world \<Rightarrow> (panic + error option) \<times> nat world" where
  "fail_with err ctx w = (Inr (Some err), w\<lparr>clock := clock w + 2500000, app := app w + 1\<rparr>)"

definition demo_metric :: "string \<Rightarrow> mapref Metric" where
  "demo_metric name =
     \<lparr>Metric.ServiceName = name, Path = ''/users'', Method = ''GET'', StatusCode = 200,
      Duration = Finite 3 0,
      Source = \<lparr>Language = ''go'', Framework = ''gin'', Version = ''1.9''\<rparr>,
      Environment = [], RequestID = [], Metadata = None\<rparr>"

section \<open>Properties\<close>

lemmas eval_defs =
  StartTrace_def StartSpan_def FinishSpan_def FinishTrace_def sendTrace_def sendSpan_def
  endSpan_def endTrace_def sendRequest_def sendRequestWithResponse_def stub_def ok_json_def
  status_def demo_client_def New_def fresh_world_def assert_string_def new_TraceContext_def
  GetTraceFromContext_def Errorf_wrap_def Let_def Log_def LogInfo_def LogError_def sendLog_def
  make_map_def map_assign_def map_contents_def Instrument_def Instrument_deferred_def Instrument_log_result_def
  Since_def Milliseconds_def SendMetric_def sendMetric_def show_int_def

subsection \<open>Panics of the unchecked type assertion\<close>

text \<open>
  C1. The claim is that no client operation panics, whatever the collector answers. The
  code does panic: when the collector answers a create request with status 200 and a JSON
  object that has no \<open>id\<close> member, or whose \<open>id\<close> is not a string, the assertion
  \<open>resp["id"].(string)\<close> of \<open>StartTrace\<close> and of \<open>StartSpan\<close> fails. The theorem runs the
  code on three such answers.
\<close>

theorem StartTrace_panics_without_string_id:
  "fst (StartTrace (stub [ok_json []]) demo_client Background ''op'' fresh_world) =
     Inl (Panic ''interface conversion: interface {} is nil, not string'') \<and>
   fst (StartTrace (stub [ok_json [(''id'', ANumber 42)]]) demo_client Background ''op''
          fresh_world) =
     Inl (Panic ''interface conversion: interface {} is float64, not string'') \<and>
   fst (StartSpan (stub [ok_json []]) demo_client
          (WithValue Background (StringKey ''go-insight-trace'') (TraceContextPtr (Some 0)))
          ''child''
          (fresh_world\<lparr>carriers := [\<lparr>TraceContext.TraceID = ''t1'', SpanID = ''s1''\<rparr>]\<rparr>)) =
     Inl (Panic ''interface conversion: interface {} is nil, not string'')"
  by (simp add: eval_defs)

subsection \<open>Failure of the root span\<close>

text \<open>
  C2. If, during \<open>StartTrace(ctx, operation)\<close>, the trace is created (the collector's answer
  carries the trace id, so that the root span is requested) and the creation of the root
  span fails with \<open>err\<close>, then \<open>StartTrace\<close> returns the context \<open>ctx\<close> it was given,
  with no Carrier attached to it, together with \<open>err\<close>. The Carrier built so far is
  returned as the second result only.
\<close>

theorem StartTrace_span_failure_keeps_context:
  assumes trace: "sendTrace e c \<lparr>Trace.ID = [], ServiceName = serviceName c\<rparr> w = ((resp, None), w1)"
    and tid: "resp ''id'' = Some (AString traceID)"
    and span: "sendSpan e c \<lparr>Span.ID = [], TraceID = traceID, ParentID = [],
                           Service = serviceName c, Operation = operation\<rparr>
                 (w1\<lparr>carriers := carriers w1 @ [\<lparr>TraceContext.TraceID = traceID, SpanID = []\<rparr>]\<rparr>) =
               ((spanResp, Some err), w3)"
  shows "StartTrace e c ctx operation w = (Inr (ctx, Some (length (carriers w1)), Some err), w3)"
  using assms by (simp add: StartTrace_def assert_string_def new_TraceContext_def)

theorem StartTrace_span_failure_keeps_context_witness:
  "fst (StartTrace (stub [ok_json [(''id'', AString ''t1'')], status 500]) demo_client
          Background ''op'' fresh_world) =
     Inr (Background, Some 0, Some (Error ''API request failed with status 500''))"
proof -
  let ?e = "stub [ok_json [(''id'', AString ''t1'')], status 500]"
  let ?t = "sendTrace ?e demo_client \<lparr>Trace.ID = [], ServiceName = serviceName demo_client\<rparr>
              fresh_world"
  let ?w1 = "snd ?t"
  let ?s = "sendSpan ?e demo_client
              \<lparr>Span.ID = [], TraceID = ''t1'', ParentID = [],
                 Service = serviceName demo_client, Operation = ''op''\<rparr>
              (?w1\<lparr>carriers := carriers ?w1 @ [\<lparr>TraceContext.TraceID = ''t1'', SpanID = []\<rparr>]\<rparr>)"
  have h1: "?t = ((fst (fst ?t), None), ?w1)"
    by (simp add: eval_defs)
  have h2: "fst (fst ?t) ''id'' = Some (AString ''t1'')"
    by (simp add: eval_defs)
  have h3: "?s = ((fst (fst ?s), Some (Error ''API request failed with status 500'')), snd ?s)"
    by (simp add: eval_defs)
  have len: "length (carriers ?w1) = 0"
    by (simp add: eval_defs)
  show ?thesis
    using StartTrace_span_failure_keeps_context [OF h1 h2 h3, of Background] len by simp
qed

subsection \<open>Operations without a Carrier\<close>

text \<open>
  C6. On a context that holds no Carrier, \<open>StartSpan\<close>, \<open>FinishSpan\<close> and \<open>FinishTrace\<close>
  each return the error "no trace context found" and leave the world as it was: nothing is
  handed to the transport and no request reaches the network.
\<close>

theorem no_carrier_no_network_call:
  assumes "GetTraceFromContext ctx = None"
  shows "StartSpan e c ctx operation w =
           (Inr (ctx, Some (Error ''no trace context found'')), w) \<and>
         FinishSpan e c ctx w = (Some (Error ''no trace context found''), w) \<and>
         FinishTrace e c ctx w = (Some (Error ''no trace context found''), w)"
  using assms by (simp add: StartSpan_def FinishSpan_def FinishTrace_def)

theorem no_carrier_no_network_call_witness:
  "GetTraceFromContext Background = None \<and>
   StartSpan (stub []) demo_client Background ''op'' fresh_world =
     (Inr (Background, Some (Error ''no trace context found'')), fresh_world) \<and>
   FinishSpan (stub []) demo_client Background fresh_world =
     (Some (Error ''no trace context found''), fresh_world) \<and>
   FinishTrace (stub []) demo_client Background fresh_world =
     (Some (Error ''no trace context found''), fresh_world)"
proof -
  have h: "GetTraceFromContext Background = None"
    by (simp add: GetTraceFromContext_def)
  show ?thesis
    using h no_carrier_no_network_call [OF h, of "stub []" demo_client "''op''" fresh_world]
    by simp
qed

subsection \<open>What a call of the transport changes\<close>

lemma sendRequestWithResponse_calls:
  "transport_calls (snd (sendRequestWithResponse e c mth pth data response w)) =
     transport_calls w @ [(mth, pth, map_option (snapshot w) data)]"
  by (simp add: sendRequestWithResponse_def Let_def split: option.splits sum.splits)

lemma sendRequestWithResponse_frame:
  "carriers (snd (sendRequestWithResponse e c mth pth data response w)) = carriers w \<and>
   maps (snd (sendRequestWithResponse e c mth pth data response w)) = maps w \<and>
   clock (snd (sendRequestWithResponse e c mth pth data response w)) = clock w \<and>
   app (snd (sendRequestWithResponse e c mth pth data response w)) = app w"
  by (simp add: sendRequestWithResponse_def Let_def split: option.splits sum.splits)

lemma sendSpan_calls:
  "transport_calls (snd (sendSpan e c span w)) =
     transport_calls w @ [(''POST'', ''/spans'', Some (SpanBody span))]"
  using sendRequestWithResponse_calls [of e c "''POST''" "''/spans''" "Some (SpanData span)" True w]
  by (simp add: sendSpan_def case_prod_beta)

lemma sendSpan_frame:
  "carriers (snd (sendSpan e c span w)) = carriers w \<and>
   maps (snd (sendSpan e c span w)) = maps w \<and>
   clock (snd (sendSpan e c span w)) = clock w \<and>
   app (snd (sendSpan e c span w)) = app w"
  using sendRequestWithResponse_frame [of e c "''POST''" "''/spans''" "Some (SpanData span)" True w]
  by (simp add: sendSpan_def case_prod_beta)

lemma sendRequest_calls:
  "transport_calls (snd (sendRequest e c mth pth data w)) =
     transport_calls w @ [(mth, pth, map_option (snapshot w) data)]"
  using sendRequestWithResponse_calls [of e c mth pth data False w]
  by (simp add: sendRequest_def case_prod_beta)

lemma sendRequest_frame:
  "carriers (snd (sendRequest e c mth pth data w)) = carriers w \<and>
   maps (snd (sendRequest e c mth pth data w)) = maps w \<and>
   clock (snd (sendRequest e c mth pth data w)) = clock w \<and>
   app (snd (sendRequest e c mth pth data w)) = app w"
  using sendRequestWithResponse_frame [of e c mth pth data False w]
  by (simp add: sendRequest_def case_prod_beta)

lemma sendRequestWithResponse_delivered:
  "network_calls (snd (sendRequestWithResponse e c mth pth data response w)) =
     network_calls w @ delivered e c (mth, pth, map_option (snapshot w) data)"
  by (simp add: sendRequestWithResponse_def Let_def delivered_def marshals_def http_request_def
      split: option.splits sum.splits)

lemma sendRequest_delivered:
  "network_calls (snd (sendRequest e c mth pth data w)) =
     network_calls w @ delivered e c (mth, pth, map_option (snapshot w) data)"
  using sendRequestWithResponse_delivered [of e c mth pth data False w]
  by (simp add: sendRequest_def case_prod_beta)

subsection \<open>Parent and child\<close>

text \<open>
  C7. Against a collector that answers the first three requests with the ids \<open>t1\<close>, \<open>s1\<close>
  and \<open>s2\<close>, \<open>StartTrace\<close> yields a context whose Carrier is \<open>{TraceID: t1, SpanID: s1}\<close>;
  \<open>StartSpan\<close> on that context then hands the transport a create-span request whose parent
  is \<open>s1\<close>, the same request reaches the network, and the new context's Carrier is
  \<open>{TraceID: t1, SpanID: s2}\<close>, the first Carrier being as it was.
\<close>

theorem parent_child_linkage:
  assumes e: "e = stub [ok_json [(''id'', AString t1)], ok_json [(''id'', AString s1)],
                        ok_json [(''id'', AString s2)]]"
    and first: "network_calls w = []"
  shows "\<exists>ctx2 p w2 ctx3 q w3.
           StartTrace e c ctx op w = (Inr (ctx2, Some p, None), w2) \<and>
           GetTraceFromContext ctx2 = Some p \<and>
           carriers w2 ! p = \<lparr>TraceContext.TraceID = t1, SpanID = s1\<rparr> \<and>
           StartSpan e c ctx2 child w2 = (Inr (ctx3, None), w3) \<and>
           last (transport_calls w3) =
             (''POST'', ''/spans'',
              Some (SpanBody \<lparr>Span.ID = [], TraceID = t1, ParentID = s1,
                              Service = serviceName c, Operation = child\<rparr>)) \<and>
           request.Body (last (network_calls w3)) =
              Some (SpanBody \<lparr>Span.ID = [], TraceID = t1, ParentID = s1,
                              Service = serviceName c, Operation = child\<rparr>) \<and>
           GetTraceFromContext ctx3 = Some q \<and>
           carriers w3 ! q = \<lparr>TraceContext.TraceID = t1, SpanID = s2\<rparr> \<and>
           carriers w3 ! p = \<lparr>TraceContext.TraceID = t1, SpanID = s1\<rparr>"
  using first by (simp add: e eval_defs nth_append)

theorem parent_child_linkage_witness:
  "\<exists>ctx2 p w2 ctx3 q w3.
     StartTrace (stub [ok_json [(''id'', AString ''t1'')], ok_json [(''id'', AString ''s1'')],
                       ok_json [(''id'', AString ''s2'')]]) demo_client Background ''op''
       fresh_world = (Inr (ctx2, Some p, None), w2) \<and>
     GetTraceFromContext ctx2 = Some p \<and>
     carriers w2 ! p = \<lparr>TraceContext.TraceID = ''t1'', SpanID = ''s1''\<rparr> \<and>
     StartSpan (stub [ok_json [(''id'', AString ''t1'')], ok_json [(''id'', AString ''s1'')],
                      ok_json [(''id'', AString ''s2'')]]) demo_client ctx2 ''child'' w2 =
       (Inr (ctx3, None), w3) \<and>
     last (transport_calls w3) =
       (''POST'', ''/spans'',
        Some (SpanBody \<lparr>Span.ID = [], TraceID = ''t1'', ParentID = ''s1'',
                        Service = serviceName demo_client, Operation = ''child''\<rparr>)) \<and>
     request.Body (last (network_calls w3)) =
        Some (SpanBody \<lparr>Span.ID = [], TraceID = ''t1'', ParentID = ''s1'',
                        Service = serviceName demo_client, Operation = ''child''\<rparr>) \<and>
     GetTraceFromContext ctx3 = Some q \<and>
     carriers w3 ! q = \<lparr>TraceContext.TraceID = ''t1'', SpanID = ''s2''\<rparr> \<and>
     carriers w3 ! p = \<lparr>TraceContext.TraceID = ''t1'', SpanID = ''s1''\<rparr>"
proof -
  have h: "network_calls fresh_world = []"
    by (simp add: fresh_world_def)
  show ?thesis
    using parent_child_linkage [OF refl h] .
qed

subsection \<open>Carriers are not mutated\<close>

text \<open>
  C8. A successful \<open>StartSpan\<close> on a context that holds a Carrier allocates one new
  \<open>TraceContext\<close>, with the trace id of the old Carrier and the span id the collector
  returned, and attaches it to the new context. Every \<open>TraceContext\<close> that existed before,
  the Carrier of the input context among them, keeps both fields.
\<close>

theorem StartSpan_allocates_fresh_carrier:
  assumes carrier: "GetTraceFromContext ctx = Some p"
    and ok: "StartSpan e c ctx operation w = (Inr (ctx', None), w')"
  shows "\<exists>resp w1 spanID.
           sendSpan e c \<lparr>Span.ID = [], TraceID = TraceContext.TraceID (carriers w ! p),
                          ParentID = TraceContext.SpanID (carriers w ! p),
                          Service = serviceName c, Operation = operation\<rparr> w = ((resp, None), w1) \<and>
           resp ''id'' = Some (AString spanID) \<and>
           carriers w' = carriers w @
             [\<lparr>TraceContext.TraceID = TraceContext.TraceID (carriers w ! p), SpanID = spanID\<rparr>] \<and>
           GetTraceFromContext ctx' = Some (length (carriers w)) \<and>
           (\<forall>q < length (carriers w). carriers w' ! q = carriers w ! q)"
proof -
  let ?span = "\<lparr>Span.ID = [], TraceID = TraceContext.TraceID (carriers w ! p),
                 ParentID = TraceContext.SpanID (carriers w ! p),
                 Service = serviceName c, Operation = operation\<rparr>"
  obtain resp serr w1 where s: "sendSpan e c ?span w = ((resp, serr), w1)"
    by (metis surj_pair)
  have fr: "carriers w1 = carriers w"
    using sendSpan_frame [of e c ?span w] s by simp
  from ok carrier s have none: "serr = None"
    by (simp add: StartSpan_def Let_def split: option.splits)
  from ok carrier s none obtain spanID where a: "assert_string (resp ''id'') = Inr spanID"
    by (simp add: StartSpan_def Let_def split: sum.splits)
  then have id: "resp ''id'' = Some (AString spanID)"
    by (simp add: assert_string_def split: option.splits any.splits)
  from ok carrier s none a fr
  have w': "carriers w' = carriers w @
              [\<lparr>TraceContext.TraceID = TraceContext.TraceID (carriers w ! p), SpanID = spanID\<rparr>]"
    and c': "ctx' = WithValue ctx (StringKey ''go-insight-trace'')
                      (TraceContextPtr (Some (length (carriers w))))"
    by (auto simp add: StartSpan_def Let_def new_TraceContext_def)
  have g: "GetTraceFromContext ctx' = Some (length (carriers w))"
    by (simp add: c' GetTraceFromContext_def)
  have old: "\<forall>q < length (carriers w). carriers w' ! q = carriers w ! q"
    by (simp add: w' nth_append)
  from s none id w' g old show ?thesis by blast
qed

theorem StartSpan_allocates_fresh_carrier_witness:
  "GetTraceFromContext
     (fst (projr (fst (StartSpan (stub [ok_json [(''id'', AString ''s2'')]]) demo_client
        (WithValue Background (StringKey ''go-insight-trace'') (TraceContextPtr (Some 0)))
        ''child''
        (fresh_world\<lparr>carriers := [\<lparr>TraceContext.TraceID = ''t1'', SpanID = ''s1''\<rparr>]\<rparr>))))) = Some 1 \<and>
   carriers (snd (StartSpan (stub [ok_json [(''id'', AString ''s2'')]]) demo_client
        (WithValue Background (StringKey ''go-insight-trace'') (TraceContextPtr (Some 0)))
        ''child''
        (fresh_world\<lparr>carriers := [\<lparr>TraceContext.TraceID = ''t1'', SpanID = ''s1''\<rparr>]\<rparr>))) ! 0 =
     \<lparr>TraceContext.TraceID = ''t1'', SpanID = ''s1''\<rparr>"
proof -
  let ?ctx = "WithValue Background (StringKey ''go-insight-trace'') (TraceContextPtr (Some 0))"
  let ?w = "fresh_world\<lparr>carriers := [\<lparr>TraceContext.TraceID = ''t1'', SpanID = ''s1''\<rparr>]\<rparr>"
  let ?r = "StartSpan (stub [ok_json [(''id'', AString ''s2'')]]) demo_client ?ctx ''child'' ?w"
  have h1: "GetTraceFromContext ?ctx = Some 0"
    by (simp add: GetTraceFromContext_def)
  have h2: "?r = (Inr (fst (projr (fst ?r)), None), snd ?r)"
    by (simp add: eval_defs)
  have len: "length (carriers ?w) = 1"
    by (simp add: fresh_world_def)
  have old: "carriers ?w ! 0 = \<lparr>TraceContext.TraceID = ''t1'', SpanID = ''s1''\<rparr>"
    by (simp add: fresh_world_def)
  from StartSpan_allocates_fresh_carrier [OF h1 h2]
  have "GetTraceFromContext (fst (projr (fst ?r))) = Some (length (carriers ?w))"
    and "\<forall>q < length (carriers ?w). carriers (snd ?r) ! q = carriers ?w ! q"
    by blast+
  then show ?thesis
    using len old by simp
qed

subsection \<open>The service name of a metric\<close>

text \<open>
  C9. \<open>SendMetric\<close> hands the transport the metric with the client's service name in
  place of an empty service name, and with the service name it has otherwise; every other
  field is as given. The metric is sent: the POST of that same payload to \<open>/metrics\<close> is
  the one request that reaches the network, whenever the payload marshals and the request
  can be created, and no request is made otherwise.
\<close>

theorem SendMetric_service_name:
  assumes sent: "sent =
      MetricBody \<lparr>Metric.ServiceName =
                    (if Metric.ServiceName metric = [] then serviceName c
                     else Metric.ServiceName metric),
                  Path = Path metric, Method = Metric.Method metric,
                  StatusCode = Metric.StatusCode metric, Duration = Duration metric,
                  Source = Source metric, Environment = Environment metric,
                  RequestID = RequestID metric,
                  Metadata = map_contents w (Metric.Metadata metric)\<rparr>"
  shows "transport_calls (snd (SendMetric e c metric w)) =
           transport_calls w @ [(''POST'', ''/metrics'', Some sent)] \<and>
         network_calls (snd (SendMetric e c metric w)) =
           network_calls w @
             (if json_Marshal_err e sent = None \<and>
                 http_NewRequest_err e ''POST'' (endpoint c @ ''/metrics'') = None
              then [\<lparr>request.Method = ''POST'', URL = endpoint c @ ''/metrics'',
                     ContentType = ''application/json'', XAPIKey = apiKey c,
                     Body = Some sent\<rparr>]
              else [])"
proof (cases "Metric.ServiceName metric = []")
  case True
  let ?m = "metric\<lparr>Metric.ServiceName := serviceName c\<rparr>"
  have r: "SendMetric e c metric w = sendRequest e c ''POST'' ''/metrics'' (Some (MetricData ?m)) w"
    using True by (simp add: SendMetric_def sendMetric_def)
  show ?thesis
    using True
    by (simp add: r sent sendRequest_calls sendRequest_delivered delivered_def marshals_def
        http_request_def)
next
  case False
  have r: "SendMetric e c metric w =
             sendRequest e c ''POST'' ''/metrics'' (Some (MetricData metric)) w"
    using False by (simp add: SendMetric_def sendMetric_def)
  show ?thesis
    using False
    by (simp add: r sent sendRequest_calls sendRequest_delivered delivered_def marshals_def
        http_request_def)
qed

theorem SendMetric_service_name_witness:
  "transport_calls (snd (SendMetric (stub []) demo_client (demo_metric []) fresh_world)) =
     [(''POST'', ''/metrics'',
       Some (MetricBody \<lparr>Metric.ServiceName = ''svc'', Path = ''/users'', Method = ''GET'',
               StatusCode = 200, Duration = Finite 3 0,
               Source = \<lparr>Language = ''go'', Framework = ''gin'', Version = ''1.9''\<rparr>,
               Environment = [], RequestID = [], Metadata = Map.empty\<rparr>))] \<and>
   transport_calls (snd (SendMetric (stub []) demo_client (demo_metric ''billing'') fresh_world)) =
     [(''POST'', ''/metrics'',
       Some (MetricBody \<lparr>Metric.ServiceName = ''billing'', Path = ''/users'', Method = ''GET'',
               StatusCode = 200, Duration = Finite 3 0,
               Source = \<lparr>Language = ''go'', Framework = ''gin'', Version = ''1.9''\<rparr>,
               Environment = [], RequestID = [], Metadata = Map.empty\<rparr>))] \<and>
   network_calls (snd (SendMetric (stub []) demo_client (demo_metric []) fresh_world)) =
     [\<lparr>request.Method = ''POST'', URL = ''http://collector/metrics'',
       ContentType = ''application/json'', XAPIKey = ''key'',
       Body = Some (MetricBody \<lparr>Metric.ServiceName = ''svc'', Path = ''/users'',
                Method = ''GET'', StatusCode = 200, Duration = Finite 3 0,
                Source = \<lparr>Language = ''go'', Framework = ''gin'', Version = ''1.9''\<rparr>,
                Environment = [], RequestID = [], Metadata = Map.empty\<rparr>)\<rparr>] \<and>
   network_calls (snd (SendMetric (stub []) demo_client (demo_metric ''billing'') fresh_world)) =
     [\<lparr>request.Method = ''POST'', URL = ''http://collector/metrics'',
       ContentType = ''application/json'', XAPIKey = ''key'',
       Body = Some (MetricBody \<lparr>Metric.ServiceName = ''billing'', Path = ''/users'',
                Method = ''GET'', StatusCode = 200, Duration = Finite 3 0,
                Source = \<lparr>Language = ''go'', Framework = ''gin'', Version = ''1.9''\<rparr>,
                Environment = [], RequestID = [], Metadata = Map.empty\<rparr>)\<rparr>]"
  using SendMetric_service_name [OF refl, of "stub []" demo_client "demo_metric []" fresh_world]
    SendMetric_service_name [OF refl, of "stub []" demo_client "demo_metric ''billing''" fresh_world]
  by (simp add: demo_metric_def demo_client_def New_def fresh_world_def map_contents_def
      stub_def)

subsection \<open>The variadic tail of LogError\<close>

lemma scan_args_last:
  "scan_args args err metadata =
     (if errors_of args = [] then err else Some (last (errors_of args)),
      if maps_of args = [] then metadata else last (maps_of args))"
proof (induction args arbitrary: err metadata)
  case Nil
  then show ?case by simp
next
  case (Cons a args)
  then show ?case by (cases a) simp_all
qed

lemma scan_args_selected:
  "scan_args (selected args) None None = scan_args args None None"
  by (simp add: scan_args_last selected_def)

lemma LogError_selected:
  "LogError e c ctx message (selected args) w = LogError e c ctx message args w"
  by (simp add: LogError_def scan_args_selected)

lemma LogError_swap:
  "LogError e c ctx message [ArgError err, ArgMap m] w =
   LogError e c ctx message [ArgMap m, ArgError err] w"
  by (simp add: LogError_def)

lemma sendLog_calls:
  "transport_calls (snd (sendLog e c entry w)) =
     transport_calls w @ [(''POST'', ''/logs'', Some (snapshot w (LogData entry)))]"
  by (simp add: sendLog_def sendRequest_calls)

lemma Log_calls:
  "transport_calls (snd (Log e c ctx level message metadata w)) =
     transport_calls w @
       [(''POST'', ''/logs'',
         Some (LogBody (entry_at c ctx w level message (map_contents w metadata))))]"
  by (simp add: Log_def Let_def sendLog_calls entry_at_def split: option.splits)

lemma Log_frame:
  "carriers (snd (Log e c ctx level message metadata w)) = carriers w \<and>
   maps (snd (Log e c ctx level message metadata w)) = maps w \<and>
   clock (snd (Log e c ctx level message metadata w)) = clock w \<and>
   app (snd (Log e c ctx level message metadata w)) = app w"
  by (simp add: Log_def Let_def sendLog_def sendRequest_frame)

lemma LogError_maps:
  "maps (snd (LogError e c ctx message args w)) =
     (case (if maps_of args = [] then None else last (maps_of args)) of
        None \<Rightarrow> maps w @
          [if errors_of args = [] then Map.empty
           else [''error'' \<mapsto> AString (Error_text (last (errors_of args)))]]
      | Some a \<Rightarrow>
          if errors_of args = [] then maps w
          else (maps w)[a := (maps w ! a)
                  (''error'' \<mapsto> AString (Error_text (last (errors_of args))))])"
  by (simp add: LogError_def scan_args_last Log_frame make_map_def map_assign_def
      split: option.splits)

lemma LogError_frame:
  "carriers (snd (LogError e c ctx message args w)) = carriers w \<and>
   clock (snd (LogError e c ctx message args w)) = clock w \<and>
   app (snd (LogError e c ctx message args w)) = app w"
  by (simp add: LogError_def Log_frame make_map_def map_assign_def
      split: option.splits prod.splits)

lemma entry_at_carriers:
  "carriers w' = carriers w \<Longrightarrow> entry_at c ctx w' = entry_at c ctx w"
  by (simp add: entry_at_def fun_eq_iff split: option.splits)

lemma LogError_pair_calls:
  assumes "case m of None \<Rightarrow> True | Some a \<Rightarrow> a < length (maps w)"
  shows "transport_calls (snd (LogError e c ctx message [ArgError err, ArgMap m] w)) =
           transport_calls w @
             [(''POST'', ''/logs'',
               Some (LogBody (entry_at c ctx w ''ERROR'' message
                       ((map_contents w m)(''error'' \<mapsto> AString (Error_text err))))))]"
proof (cases m)
  case None
  have "entry_at c ctx (map_assign (length (maps w)) ''error'' (AString (Error_text err))
            (w\<lparr>maps := maps w @ [Map.empty]\<rparr>)) = entry_at c ctx w"
    by (rule entry_at_carriers) (simp add: map_assign_def)
  with None show ?thesis
    by (simp add: LogError_def Log_calls make_map_def map_contents_def)
      (simp add: map_assign_def)
next
  case (Some a)
  have "entry_at c ctx (map_assign a ''error'' (AString (Error_text err)) w) = entry_at c ctx w"
    by (rule entry_at_carriers) (simp add: map_assign_def)
  with Some assms show ?thesis
    by (simp add: LogError_def Log_calls map_contents_def)
      (simp add: map_assign_def)
qed

lemma Log_delivered:
  "network_calls (snd (Log e c ctx level message metadata w)) =
     network_calls w @
       delivered e c (''POST'', ''/logs'',
         Some (LogBody (entry_at c ctx w level message (map_contents w metadata))))"
  by (simp add: Log_def Let_def sendLog_def sendRequest_delivered entry_at_def split: option.splits)

lemma LogError_pair_delivered:
  assumes "case m of None \<Rightarrow> True | Some a \<Rightarrow> a < length (maps w)"
  shows "network_calls (snd (LogError e c ctx message [ArgError err, ArgMap m] w)) =
           network_calls w @
             delivered e c (''POST'', ''/logs'',
               Some (LogBody (entry_at c ctx w ''ERROR'' message
                       ((map_contents w m)(''error'' \<mapsto> AString (Error_text err))))))"
proof (cases m)
  case None
  have "entry_at c ctx (map_assign (length (maps w)) ''error'' (AString (Error_text err))
            (w\<lparr>maps := maps w @ [Map.empty]\<rparr>)) = entry_at c ctx w"
    by (rule entry_at_carriers) (simp add: map_assign_def)
  with None show ?thesis
    by (simp add: LogError_def Log_delivered make_map_def map_contents_def)
      (simp add: map_assign_def)
next
  case (Some a)
  have "entry_at c ctx (map_assign a ''error'' (AString (Error_text err)) w) = entry_at c ctx w"
    by (rule entry_at_carriers) (simp add: map_assign_def)
  with Some assms show ?thesis
    by (simp add: LogError_def Log_delivered map_contents_def)
      (simp add: map_assign_def)
qed

text \<open>
  C5. The claim is that \<open>LogError\<close> takes the first error and the first map of its
  variadic tail. The loop assigns on every match, so it takes the last of each. Here the
  tail holds two errors and two maps: the entry handed to the transport carries the text
  of the second error and the contents of the second map.
\<close>

theorem LogError_first_of_each_counterexample:
  "LogEntry.Metadata (hd (log_entries (transport_calls (snd
      (LogError (stub []) demo_client Background ''msg''
         [ArgError (Error ''first''), ArgMap (Some 0), ArgError (Error ''second''), ArgMap (Some 1)]
         (fresh_world\<lparr>maps := [[''a'' \<mapsto> ANumber 1], [''b'' \<mapsto> ANumber 2]]\<rparr>)))))) =
     [''b'' \<mapsto> ANumber 2, ''error'' \<mapsto> AString ''second''] \<and>
   LogEntry.Metadata (hd (log_entries (transport_calls (snd
      (LogError (stub []) demo_client Background ''msg''
         [ArgError (Error ''first''), ArgMap (Some 0), ArgError (Error ''second''), ArgMap (Some 1)]
         (fresh_world\<lparr>maps := [[''a'' \<mapsto> ANumber 1], [''b'' \<mapsto> ANumber 2]]\<rparr>))))))
     ''error'' \<noteq> Some (AString ''first'') \<and>
   LogEntry.Metadata (hd (log_entries (transport_calls (snd
      (LogError (stub []) demo_client Background ''msg''
         [ArgError (Error ''first''), ArgMap (Some 0), ArgError (Error ''second''), ArgMap (Some 1)]
         (fresh_world\<lparr>maps := [[''a'' \<mapsto> ANumber 1], [''b'' \<mapsto> ANumber 2]]\<rparr>))))))
     ''a'' \<noteq> Some (ANumber 1)"
  by (simp add: eval_defs)

text \<open>
  C5, as amended. \<open>LogError\<close> behaves as if it had been given the last error value of the
  tail (if any) and the last map value (if any) only. An error \<open>err\<close> and a map \<open>m\<close> give
  the same result in either order: one ERROR entry with the message, whose metadata are
  the contents of \<open>m\<close> with the text of \<open>err\<close> under the key \<open>error\<close>.
\<close>

theorem LogError_takes_the_last_of_each:
  "LogError e c ctx message args w = LogError e c ctx message (selected args) w \<and>
   LogError e c ctx message [ArgError err, ArgMap m] w =
     LogError e c ctx message [ArgMap m, ArgError err] w \<and>
   ((case m of None \<Rightarrow> True | Some a \<Rightarrow> a < length (maps w)) \<longrightarrow>
      transport_calls (snd (LogError e c ctx message [ArgMap m, ArgError err] w)) =
        transport_calls w @
          [(''POST'', ''/logs'',
            Some (LogBody (entry_at c ctx w ''ERROR'' message
                    ((map_contents w m)(''error'' \<mapsto> AString (Error_text err))))))])"
  using LogError_pair_calls [where m = m and w = w and e = e and c = c and ctx = ctx
      and message = message and err = err]
  by (simp add: LogError_selected LogError_swap)

theorem LogError_takes_the_last_of_each_witness:
  "transport_calls (snd (LogError (stub []) demo_client Background ''msg''
      [ArgMap (Some 0), ArgError (Error ''boom'')]
      (fresh_world\<lparr>maps := [[''a'' \<mapsto> ANumber 1]]\<rparr>))) =
     [(''POST'', ''/logs'',
       Some (LogBody \<lparr>LogEntry.ServiceName = ''svc'', LogLevel = ''ERROR'', Message = ''msg'',
               TraceID = [], SpanID = [],
               Metadata = [''a'' \<mapsto> ANumber 1, ''error'' \<mapsto> AString ''boom'']\<rparr>))] \<and>
   LogError (stub []) demo_client Background ''msg''
      [ArgError (Error ''boom''), ArgMap (Some 0)]
      (fresh_world\<lparr>maps := [[''a'' \<mapsto> ANumber 1]]\<rparr>) =
   LogError (stub []) demo_client Background ''msg''
      [ArgMap (Some 0), ArgError (Error ''boom'')]
      (fresh_world\<lparr>maps := [[''a'' \<mapsto> ANumber 1]]\<rparr>)"
proof -
  let ?w = "fresh_world\<lparr>maps := [[''a'' \<mapsto> ANumber 1]]\<rparr>"
  have h: "case Some 0 of None \<Rightarrow> True | Some a \<Rightarrow> a < length (maps ?w)"
    by simp
  show ?thesis
    using h LogError_takes_the_last_of_each
      [of "stub []" demo_client Background "''msg''" "[]" ?w "Error ''boom''" "Some 0"]
    by (simp add: entry_at_def map_contents_def GetTraceFromContext_def demo_client_def New_def
        fresh_world_def)
qed

text \<open>
  C10. The claim is that whenever the tail of \<open>LogError\<close> holds an error and a non-nil
  map, the text of the error is written into that map. \<open>LogError\<close> writes into the map it
  passes on, which is the last map value of the tail. A non-nil map followed in the tail
  by another map, or by the nil map, is left as it was.
\<close>

theorem LogError_earlier_map_untouched_counterexample:
  "map_contents
     (snd (LogError (stub []) demo_client Background ''msg''
             [ArgError (Error ''boom''), ArgMap (Some 0), ArgMap (Some 1)]
             (fresh_world\<lparr>maps := [[''a'' \<mapsto> ANumber 1], [''b'' \<mapsto> ANumber 2]]\<rparr>)))
     (Some 0) ''error'' = None \<and>
   map_contents
     (snd (LogError (stub []) demo_client Background ''msg''
             [ArgError (Error ''boom''), ArgMap (Some 0), ArgMap (Some 1)]
             (fresh_world\<lparr>maps := [[''a'' \<mapsto> ANumber 1], [''b'' \<mapsto> ANumber 2]]\<rparr>)))
     (Some 1) ''error'' = Some (AString ''boom'') \<and>
   map_contents
     (snd (LogError (stub []) demo_client Background ''msg''
             [ArgMap (Some 0), ArgMap None, ArgError (Error ''boom'')]
             (fresh_world\<lparr>maps := [[''a'' \<mapsto> ANumber 1]]\<rparr>)))
     (Some 0) ''error'' = None"
  by (simp add: LogError_maps map_contents_def fresh_world_def)

text \<open>
  C10, as amended. When the tail of \<open>LogError\<close> holds an error and the last map value of
  the tail is not nil, the text of the last error is stored under the key \<open>error\<close> in
  that very map, in place of what the map held there; the heap after the call shows the
  change, and no other map is touched.
\<close>

theorem LogError_writes_into_the_callers_map:
  assumes err: "errors_of args \<noteq> []"
    and some: "maps_of args \<noteq> []"
    and ref: "last (maps_of args) = Some a"
    and alloc: "a < length (maps w)"
  shows "maps (snd (LogError e c ctx message args w)) =
           (maps w)[a := (maps w ! a)
              (''error'' \<mapsto> AString (Error_text (last (errors_of args))))] \<and>
         map_contents (snd (LogError e c ctx message args w)) (Some a) =
           (map_contents w (Some a))
              (''error'' \<mapsto> AString (Error_text (last (errors_of args))))"
  using assms by (simp add: LogError_maps map_contents_def)

theorem LogError_writes_into_the_callers_map_witness:
  "map_contents
     (snd (LogError (stub []) demo_client Background ''msg''
             [ArgError (Error ''boom''), ArgMap (Some 0)]
             (fresh_world\<lparr>maps := [[''a'' \<mapsto> ANumber 1, ''error'' \<mapsto> AString ''old'']]\<rparr>)))
     (Some 0) =
   [''a'' \<mapsto> ANumber 1, ''error'' \<mapsto> AString ''boom'']"
proof -
  let ?args = "[ArgError (Error ''boom''), ArgMap (Some 0)]"
  let ?w = "fresh_world\<lparr>maps := [[''a'' \<mapsto> ANumber 1, ''error'' \<mapsto> AString ''old'']]\<rparr>"
  have h1: "errors_of ?args \<noteq> []" by simp
  have h2: "maps_of ?args \<noteq> []" by simp
  have h3: "last (maps_of ?args) = Some 0" by simp
  have h4: "0 < length (maps ?w)" by simp
  show ?thesis
    using LogError_writes_into_the_callers_map [OF h1 h2 h3 h4, of "stub []" demo_client Background "''msg''"]
    by (simp add: map_contents_def)
qed

subsection \<open>The instrumentation wrapper\<close>

lemma FinishSpan_calls:
  "transport_calls (snd (FinishSpan e c ctx w)) =
     transport_calls w @
       (case GetTraceFromContext ctx of
          None \<Rightarrow> []
        | Some p \<Rightarrow>
            [(''POST'', ''/spans/'' @ TraceContext.SpanID (carriers w ! p) @ ''/end'', None)])"
  by (simp add: FinishSpan_def endSpan_def sendRequest_calls split: option.splits)

lemma FinishSpan_frame:
  "carriers (snd (FinishSpan e c ctx w)) = carriers w \<and>
   maps (snd (FinishSpan e c ctx w)) = maps w \<and>
   clock (snd (FinishSpan e c ctx w)) = clock w \<and>
   app (snd (FinishSpan e c ctx w)) = app w"
  by (simp add: FinishSpan_def endSpan_def sendRequest_frame split: option.splits)

lemma Instrument_log_result_calls:
  "transport_calls (Instrument_log_result e c operation spanCtx fnErr duration w) =
     transport_calls w @
       [(''POST'', ''/logs'',
         Some (LogBody (completion_entry c spanCtx w operation (Milliseconds duration) fnErr)))]"
proof (cases fnErr)
  case None
  have "entry_at c spanCtx (w\<lparr>maps := maps w @ [[''operation'' \<mapsto> AString operation,
            ''duration_ms'' \<mapsto> ANumber (Milliseconds duration)]]\<rparr>) = entry_at c spanCtx w"
    by (rule entry_at_carriers) simp
  with None show ?thesis
    by (simp add: Instrument_log_result_def make_map_def LogInfo_def Log_calls
        completion_entry_def map_contents_def)
next
  case (Some err)
  let ?w' = "w\<lparr>maps := maps w @ [[''operation'' \<mapsto> AString operation,
            ''duration_ms'' \<mapsto> ANumber (Milliseconds duration)]]\<rparr>"
  have en: "entry_at c spanCtx ?w' = entry_at c spanCtx w"
    by (rule entry_at_carriers) simp
  have "case Some (length (maps w)) of None \<Rightarrow> True | Some a \<Rightarrow> a < length (maps ?w')"
    by simp
  from LogError_pair_calls [OF this, of e c spanCtx "''Operation failed: '' @ operation" err]
  show ?thesis
    using Some by (simp add: Instrument_log_result_def make_map_def completion_entry_def
        map_contents_def en)
qed

lemma Instrument_log_result_frame:
  "carriers (Instrument_log_result e c operation spanCtx fnErr duration w) = carriers w \<and>
   clock (Instrument_log_result e c operation spanCtx fnErr duration w) = clock w \<and>
   app (Instrument_log_result e c operation spanCtx fnErr duration w) = app w"
  by (cases fnErr)
    (simp_all add: Instrument_log_result_def make_map_def LogInfo_def Log_frame LogError_frame)

lemma Instrument_deferred_calls:
  "transport_calls (Instrument_deferred e c operation spanCtx w) =
     transport_calls (snd (FinishSpan e c spanCtx w)) @
       (case fst (FinishSpan e c spanCtx w) of
          None \<Rightarrow> []
        | Some err \<Rightarrow>
            [(''POST'', ''/logs'',
              Some (LogBody (finish_failure_entry c spanCtx w operation err)))])"
proof (cases "FinishSpan e c spanCtx w")
  case (Pair ferr w1)
  show ?thesis
  proof (cases ferr)
    case None
    with Pair show ?thesis by (simp add: Instrument_deferred_def)
  next
    case (Some err)
    let ?w2 = "w1\<lparr>maps := maps w1 @ [[''operation'' \<mapsto> AString operation]]\<rparr>"
    have c1: "carriers w1 = carriers w"
      using FinishSpan_frame [of e c spanCtx w] Pair by simp
    have en: "entry_at c spanCtx ?w2 = entry_at c spanCtx w"
      by (rule entry_at_carriers) (simp add: c1)
    have "case Some (length (maps w1)) of None \<Rightarrow> True | Some a \<Rightarrow> a < length (maps ?w2)"
      by simp
    from LogError_pair_calls [OF this, of e c spanCtx "''Failed to finish span''" err]
    show ?thesis
      using Pair Some by (simp add: Instrument_deferred_def make_map_def finish_failure_entry_def
          map_contents_def en)
  qed
qed

lemma Instrument_deferred_frame:
  "carriers (Instrument_deferred e c operation spanCtx w) = carriers w \<and>
   clock (Instrument_deferred e c operation spanCtx w) = clock w \<and>
   app (Instrument_deferred e c operation spanCtx w) = app w"
  using FinishSpan_frame [of e c spanCtx w]
  by (cases "FinishSpan e c spanCtx w")
    (simp add: Instrument_deferred_def make_map_def LogError_frame split: option.splits)

lemma FinishSpan_delivered:
  "network_calls (snd (FinishSpan e c ctx w)) =
     network_calls w @
       (case GetTraceFromContext ctx of
          None \<Rightarrow> []
        | Some p \<Rightarrow>
            delivered e c
              (''POST'', ''/spans/'' @ TraceContext.SpanID (carriers w ! p) @ ''/end'', None))"
  by (simp add: FinishSpan_def endSpan_def sendRequest_delivered split: option.splits)

lemma Instrument_log_result_delivered:
  "network_calls (Instrument_log_result e c operation spanCtx fnErr duration w) =
     network_calls w @
       delivered e c (''POST'', ''/logs'',
         Some (LogBody (completion_entry c spanCtx w operation (Milliseconds duration) fnErr)))"
proof (cases fnErr)
  case None
  have "entry_at c spanCtx (w\<lparr>maps := maps w @ [[''operation'' \<mapsto> AString operation,
            ''duration_ms'' \<mapsto> ANumber (Milliseconds duration)]]\<rparr>) = entry_at c spanCtx w"
    by (rule entry_at_carriers) simp
  with None show ?thesis
    by (simp add: Instrument_log_result_def make_map_def LogInfo_def Log_delivered
        completion_entry_def map_contents_def)
next
  case (Some err)
  let ?w' = "w\<lparr>maps := maps w @ [[''operation'' \<mapsto> AString operation,
            ''duration_ms'' \<mapsto> ANumber (Milliseconds duration)]]\<rparr>"
  have en: "entry_at c spanCtx ?w' = entry_at c spanCtx w"
    by (rule entry_at_carriers) simp
  have "case Some (length (maps w)) of None \<Rightarrow> True | Some a \<Rightarrow> a < length (maps ?w')"
    by simp
  from LogError_pair_delivered [OF this, of e c spanCtx "''Operation failed: '' @ operation" err]
  show ?thesis
    using Some by (simp add: Instrument_log_result_def make_map_def completion_entry_def
        map_contents_def en)
qed

lemma Instrument_deferred_delivered:
  "network_calls (Instrument_deferred e c operation spanCtx w) =
     network_calls (snd (FinishSpan e c spanCtx w)) @
       (case fst (FinishSpan e c spanCtx w) of
          None \<Rightarrow> []
        | Some err \<Rightarrow>
            delivered e c (''POST'', ''/logs'',
              Some (LogBody (finish_failure_entry c spanCtx w operation err))))"
proof (cases "FinishSpan e c spanCtx w")
  case (Pair ferr w1)
  show ?thesis
  proof (cases ferr)
    case None
    with Pair show ?thesis by (simp add: Instrument_deferred_def)
  next
    case (Some err)
    let ?w2 = "w1\<lparr>maps := maps w1 @ [[''operation'' \<mapsto> AString operation]]\<rparr>"
    have c1: "carriers w1 = carriers w"
      using FinishSpan_frame [of e c spanCtx w] Pair by simp
    have en: "entry_at c spanCtx ?w2 = entry_at c spanCtx w"
      by (rule entry_at_carriers) (simp add: c1)
    have "case Some (length (maps w1)) of None \<Rightarrow> True | Some a \<Rightarrow> a < length (maps ?w2)"
      by simp
    from LogError_pair_delivered [OF this, of e c spanCtx "''Failed to finish span''" err]
    show ?thesis
      using Pair Some by (simp add: Instrument_deferred_def make_map_def finish_failure_entry_def
          map_contents_def en)
  qed
qed

lemma Instrument_returns:
  assumes start: "StartSpan e c ctx operation w = (Inr (sctx, serr), w1)"
    and span: "spanCtx = (if serr = None then sctx else ctx)"
    and run: "fn spanCtx w1 = (Inr fnErr, w2)"
  shows "Instrument e c operation fn ctx w =
           (Inr fnErr,
            Instrument_deferred e c operation spanCtx
              (Instrument_log_result e c operation spanCtx fnErr (Since (clock w2) (clock w1)) w2))"
proof (cases serr)
  case None
  with assms show ?thesis by (simp add: Instrument_def)
next
  case (Some a)
  with assms show ?thesis by (simp add: Instrument_def)
qed

lemma Instrument_without_carrier:
  assumes none: "GetTraceFromContext ctx = None"
    and run: "fn ctx w = (Inr fnErr, w2)"
  shows "Instrument e c operation fn ctx w =
           (Inr fnErr,
            Instrument_deferred e c operation ctx
              (Instrument_log_result e c operation ctx fnErr (Since (clock w2) (clock w)) w2)) \<and>
         transport_calls (Instrument_deferred e c operation ctx
              (Instrument_log_result e c operation ctx fnErr (Since (clock w2) (clock w)) w2)) =
           transport_calls w2 @
             [(''POST'', ''/logs'',
               Some (LogBody (completion_entry c ctx w2 operation
                       (Milliseconds (Since (clock w2) (clock w))) fnErr))),
              (''POST'', ''/logs'',
               Some (LogBody (finish_failure_entry c ctx w2 operation
                       (Error ''no trace context found''))))] \<and>
         network_calls (Instrument_deferred e c operation ctx
              (Instrument_log_result e c operation ctx fnErr (Since (clock w2) (clock w)) w2)) =
           network_calls w2 @
             delivered e c (''POST'', ''/logs'',
               Some (LogBody (completion_entry c ctx w2 operation
                       (Milliseconds (Since (clock w2) (clock w))) fnErr))) @
             delivered e c (''POST'', ''/logs'',
               Some (LogBody (finish_failure_entry c ctx w2 operation
                       (Error ''no trace context found''))))"
proof -
  let ?w3 = "Instrument_log_result e c operation ctx fnErr (Since (clock w2) (clock w)) w2"
  have start: "StartSpan e c ctx operation w =
                 (Inr (ctx, Some (Error ''no trace context found'')), w)"
    using none by (simp add: StartSpan_def)
  have span: "ctx = (if Some (Error ''no trace context found'') = None then ctx else ctx)"
    by simp
  have r: "Instrument e c operation fn ctx w = (Inr fnErr, Instrument_deferred e c operation ctx ?w3)"
    using Instrument_returns [where fn = fn, OF start span run] by simp
  have fin: "FinishSpan e c ctx ?w3 = (Some (Error ''no trace context found''), ?w3)"
    using none by (simp add: FinishSpan_def)
  have k3: "carriers ?w3 = carriers w2"
    by (simp add: Instrument_log_result_frame)
  have en: "finish_failure_entry c ctx ?w3 operation = finish_failure_entry c ctx w2 operation"
    by (simp add: finish_failure_entry_def entry_at_carriers [OF k3] fun_eq_iff)
  have calls: "transport_calls (Instrument_deferred e c operation ctx ?w3) =
           transport_calls w2 @
             [(''POST'', ''/logs'',
               Some (LogBody (completion_entry c ctx w2 operation
                       (Milliseconds (Since (clock w2) (clock w))) fnErr))),
              (''POST'', ''/logs'',
               Some (LogBody (finish_failure_entry c ctx w2 operation
                       (Error ''no trace context found''))))]"
    by (simp add: Instrument_deferred_calls fin Instrument_log_result_calls en)
  have net: "network_calls (Instrument_deferred e c operation ctx ?w3) =
           network_calls w2 @
             delivered e c (''POST'', ''/logs'',
               Some (LogBody (completion_entry c ctx w2 operation
                       (Milliseconds (Since (clock w2) (clock w))) fnErr))) @
             delivered e c (''POST'', ''/logs'',
               Some (LogBody (finish_failure_entry c ctx w2 operation
                       (Error ''no trace context found''))))"
    by (simp add: Instrument_deferred_delivered fin Instrument_log_result_delivered en)
  show ?thesis
    using r calls net by simp
qed

lemma log_entries_append:
  "log_entries (xs @ ys) = log_entries xs @ log_entries ys"
  by (induction xs rule: log_entries.induct) simp_all

text \<open>
  C3. The claim is that the wrapper emits no ERROR log when the operation succeeds, and
  exactly one when it fails. On a context without a Carrier the deferred \<open>FinishSpan\<close>
  fails and the wrapper logs that failure at level ERROR: with a collector that accepts
  every request, a successful operation is followed by one ERROR log and a failed one by
  two, and for the successful operation both the INFO log and the ERROR log are requests
  that reach the network.
\<close>

theorem Instrument_extra_error_log_counterexample:
  "fst (Instrument (stub [status 200, status 200]) demo_client ''job'' succeed Background
          fresh_world) = Inr None \<and>
   length (logs_at ''ERROR'' (transport_calls (snd
     (Instrument (stub [status 200, status 200]) demo_client ''job'' succeed Background
        fresh_world)))) = 1 \<and>
   length (logs_at ''ERROR'' (transport_calls (snd
     (Instrument (stub [status 200, status 200]) demo_client ''job'' (fail_with (Error ''boom''))
        Background fresh_world)))) = 2 \<and>
   network_calls (snd
     (Instrument (stub [status 200, status 200]) demo_client ''job'' succeed Background
        fresh_world)) =
     [\<lparr>request.Method = ''POST'', URL = ''http://collector/logs'',
       ContentType = ''application/json'', XAPIKey = ''key'',
       Body = Some (LogBody \<lparr>LogEntry.ServiceName = ''svc'', LogLevel = ''INFO'',
                Message = ''Operation completed: job'', TraceID = [], SpanID = [],
                Metadata = [''operation'' \<mapsto> AString ''job'',
                            ''duration_ms'' \<mapsto> ANumber 2]\<rparr>)\<rparr>,
      \<lparr>request.Method = ''POST'', URL = ''http://collector/logs'',
       ContentType = ''application/json'', XAPIKey = ''key'',
       Body = Some (LogBody \<lparr>LogEntry.ServiceName = ''svc'', LogLevel = ''ERROR'',
                Message = ''Failed to finish span'', TraceID = [], SpanID = [],
                Metadata = [''operation'' \<mapsto> AString ''job'',
                            ''error'' \<mapsto> AString ''no trace context found'']\<rparr>)\<rparr>]"
proof -
  have none: "GetTraceFromContext Background = None"
    by (simp add: GetTraceFromContext_def)
  have ok: "succeed Background fresh_world = (Inr None, snd (succeed Background fresh_world))"
    by (simp add: succeed_def)
  have bad: "fail_with (Error ''boom'') Background fresh_world =
               (Inr (Some (Error ''boom'')), snd (fail_with (Error ''boom'') Background fresh_world))"
    by (simp add: fail_with_def)
  show ?thesis
    using Instrument_without_carrier [where fn = succeed, OF none ok,
        of "stub [status 200, status 200]" demo_client "''job''"]
      Instrument_without_carrier [where fn = "fail_with (Error ''boom'')", OF none bad,
        of "stub [status 200, status 200]" demo_client "''job''"]
    by (simp add: succeed_def fail_with_def fresh_world_def logs_at_def completion_entry_def
        finish_failure_entry_def entry_at_def delivered_def marshals_def http_request_def
        stub_def demo_client_def New_def GetTraceFromContext_def Since_def Milliseconds_def)
qed

text \<open>
  C3, as amended. When \<open>StartSpan\<close> returns and the operation returns \<open>fnErr\<close>, the
  wrapper returns \<open>fnErr\<close> and, after the operation, hands the transport exactly one
  completion log: INFO with the duration when \<open>fnErr\<close> is nil, ERROR with the duration and
  the text of the error otherwise. That log is sent: it is the next request that reaches
  the network whenever its payload marshals and the request can be created. The only
  other log entry of the wrapper is one ERROR entry "Failed to finish span", present
  exactly when \<open>FinishSpan\<close> returns an error; so a success whose span is finished is
  followed by no ERROR log. The requests that reach the network after the completion log
  are the one that ends the span, when the context holds a Carrier, and that ERROR log.
\<close>

theorem Instrument_completion_log:
  assumes start: "StartSpan e c ctx operation w = (Inr (sctx, serr), w1)"
    and span: "spanCtx = (if serr = None then sctx else ctx)"
    and run: "fn spanCtx w1 = (Inr fnErr, w2)"
    and w3: "w3 = Instrument_log_result e c operation spanCtx fnErr (Since (clock w2) (clock w1)) w2"
    and completion: "completion = completion_entry c spanCtx w2 operation
                       (Milliseconds (Since (clock w2) (clock w1))) fnErr"
  shows "fst (Instrument e c operation fn ctx w) = Inr fnErr \<and>
         transport_calls w3 = transport_calls w2 @ [(''POST'', ''/logs'', Some (LogBody completion))] \<and>
         take (length (transport_calls w2))
           (transport_calls (snd (Instrument e c operation fn ctx w))) = transport_calls w2 \<and>
         log_entries (drop (length (transport_calls w2))
                        (transport_calls (snd (Instrument e c operation fn ctx w)))) =
           completion #
             (case fst (FinishSpan e c spanCtx w3) of
                None \<Rightarrow> []
              | Some err \<Rightarrow> [finish_failure_entry c spanCtx w2 operation err]) \<and>
         LogLevel completion = (case fnErr of None \<Rightarrow> ''INFO'' | Some err \<Rightarrow> ''ERROR'') \<and>
         (fnErr = None \<and> fst (FinishSpan e c spanCtx w3) = None \<longrightarrow>
            logs_at ''ERROR'' (drop (length (transport_calls w2))
              (transport_calls (snd (Instrument e c operation fn ctx w)))) = []) \<and>
         network_calls w3 =
           network_calls w2 @ delivered e c (''POST'', ''/logs'', Some (LogBody completion)) \<and>
         (json_Marshal_err e (LogBody completion) = None \<and>
          http_NewRequest_err e ''POST'' (endpoint c @ ''/logs'') = None \<longrightarrow>
            network_calls w3 =
              network_calls w2 @
                [\<lparr>request.Method = ''POST'', URL = endpoint c @ ''/logs'',
                  ContentType = ''application/json'', XAPIKey = apiKey c,
                  Body = Some (LogBody completion)\<rparr>]) \<and>
         network_calls (snd (Instrument e c operation fn ctx w)) =
           network_calls w3 @
             (case GetTraceFromContext spanCtx of
                None \<Rightarrow> []
              | Some p \<Rightarrow>
                  delivered e c
                    (''POST'', ''/spans/'' @ TraceContext.SpanID (carriers w2 ! p) @ ''/end'',
                     None)) @
             (case fst (FinishSpan e c spanCtx w3) of
                None \<Rightarrow> []
              | Some err \<Rightarrow>
                  delivered e c (''POST'', ''/logs'',
                    Some (LogBody (finish_failure_entry c spanCtx w2 operation err))))"
proof -
  have r: "Instrument e c operation fn ctx w =
             (Inr fnErr, Instrument_deferred e c operation spanCtx w3)"
    using Instrument_returns [where fn = fn, OF start span run] w3 by simp
  have c3: "transport_calls w3 =
              transport_calls w2 @ [(''POST'', ''/logs'', Some (LogBody completion))]"
    by (simp add: w3 completion Instrument_log_result_calls)
  have n3: "network_calls w3 =
              network_calls w2 @ delivered e c (''POST'', ''/logs'', Some (LogBody completion))"
    by (simp add: w3 completion Instrument_log_result_delivered)
  have sent: "json_Marshal_err e (LogBody completion) = None \<and>
              http_NewRequest_err e ''POST'' (endpoint c @ ''/logs'') = None \<longrightarrow>
                network_calls w3 =
                  network_calls w2 @
                    [\<lparr>request.Method = ''POST'', URL = endpoint c @ ''/logs'',
                      ContentType = ''application/json'', XAPIKey = apiKey c,
                      Body = Some (LogBody completion)\<rparr>]"
    by (simp add: n3 delivered_def marshals_def http_request_def)
  have k3: "carriers w3 = carriers w2"
    by (simp add: w3 Instrument_log_result_frame)
  have en: "finish_failure_entry c spanCtx w3 operation = finish_failure_entry c spanCtx w2 operation"
    by (simp add: finish_failure_entry_def entry_at_carriers [OF k3] fun_eq_iff)
  have d: "transport_calls (Instrument_deferred e c operation spanCtx w3) =
             transport_calls w2 @ (''POST'', ''/logs'', Some (LogBody completion)) #
               (case GetTraceFromContext spanCtx of
                  None \<Rightarrow> []
                | Some p \<Rightarrow>
                    [(''POST'', ''/spans/'' @ TraceContext.SpanID (carriers w3 ! p) @ ''/end'', None)]) @
               (case fst (FinishSpan e c spanCtx w3) of
                  None \<Rightarrow> []
                | Some err \<Rightarrow>
                    [(''POST'', ''/logs'',
                      Some (LogBody (finish_failure_entry c spanCtx w2 operation err)))])"
    by (simp add: Instrument_deferred_calls FinishSpan_calls c3 en cong: option.case_cong)
  have nd: "network_calls (Instrument_deferred e c operation spanCtx w3) =
              network_calls w3 @
                (case GetTraceFromContext spanCtx of
                   None \<Rightarrow> []
                 | Some p \<Rightarrow>
                     delivered e c
                       (''POST'', ''/spans/'' @ TraceContext.SpanID (carriers w2 ! p) @ ''/end'',
                        None)) @
                (case fst (FinishSpan e c spanCtx w3) of
                   None \<Rightarrow> []
                 | Some err \<Rightarrow>
                     delivered e c (''POST'', ''/logs'',
                       Some (LogBody (finish_failure_entry c spanCtx w2 operation err))))"
    by (simp add: Instrument_deferred_delivered FinishSpan_delivered en k3
        cong: option.case_cong)
  have lv: "LogLevel completion = (case fnErr of None \<Rightarrow> ''INFO'' | Some err \<Rightarrow> ''ERROR'')"
    by (simp add: completion completion_entry_def entry_at_def split: option.splits)
  have logs: "log_entries (drop (length (transport_calls w2))
                (transport_calls (Instrument_deferred e c operation spanCtx w3))) =
              completion #
                (case fst (FinishSpan e c spanCtx w3) of
                   None \<Rightarrow> []
                 | Some err \<Rightarrow> [finish_failure_entry c spanCtx w2 operation err])"
    by (simp add: d log_entries_append split: option.splits)
  have quiet: "fnErr = None \<and> fst (FinishSpan e c spanCtx w3) = None \<longrightarrow>
                 logs_at ''ERROR'' (drop (length (transport_calls w2))
                   (transport_calls (Instrument_deferred e c operation spanCtx w3))) = []"
    using lv by (simp add: logs logs_at_def)
  have ext: "take (length (transport_calls w2))
               (transport_calls (Instrument_deferred e c operation spanCtx w3)) = transport_calls w2"
    by (simp add: d)
  have snd_r: "snd (Instrument e c operation fn ctx w) = Instrument_deferred e c operation spanCtx w3"
    and fst_r: "fst (Instrument e c operation fn ctx w) = Inr fnErr"
    by (simp_all add: r)
  show ?thesis
    unfolding snd_r fst_r
    using c3 lv logs quiet ext n3 sent nd by blast
qed

theorem Instrument_completion_log_witness:
  "fst (Instrument (stub [ok_json [(''id'', AString ''s2'')], status 200, status 200])
          demo_client ''job'' succeed
          (WithValue Background (StringKey ''go-insight-trace'') (TraceContextPtr (Some 0)))
          (fresh_world\<lparr>carriers := [\<lparr>TraceContext.TraceID = ''t1'', SpanID = ''s1''\<rparr>]\<rparr>)) =
     Inr None \<and>
   log_entries (drop 1 (transport_calls (snd
     (Instrument (stub [ok_json [(''id'', AString ''s2'')], status 200, status 200])
          demo_client ''job'' succeed
          (WithValue Background (StringKey ''go-insight-trace'') (TraceContextPtr (Some 0)))
          (fresh_world\<lparr>carriers := [\<lparr>TraceContext.TraceID = ''t1'', SpanID = ''s1''\<rparr>]\<rparr>))))) =
     [\<lparr>LogEntry.ServiceName = ''svc'', LogLevel = ''INFO'',
       Message = ''Operation completed: job'', TraceID = ''t1'', SpanID = ''s2'',
       Metadata = [''operation'' \<mapsto> AString ''job'', ''duration_ms'' \<mapsto> ANumber 2]\<rparr>] \<and>
   network_calls (snd
     (Instrument (stub [ok_json [(''id'', AString ''s2'')], status 200, status 200])
          demo_client ''job'' succeed
          (WithValue Background (StringKey ''go-insight-trace'') (TraceContextPtr (Some 0)))
          (fresh_world\<lparr>carriers := [\<lparr>TraceContext.TraceID = ''t1'', SpanID = ''s1''\<rparr>]\<rparr>))) =
     [\<lparr>request.Method = ''POST'', URL = ''http://collector/spans'',
       ContentType = ''application/json'', XAPIKey = ''key'',
       Body = Some (SpanBody \<lparr>Span.ID = [], TraceID = ''t1'', ParentID = ''s1'',
                Service = ''svc'', Operation = ''job''\<rparr>)\<rparr>,
      \<lparr>request.Method = ''POST'', URL = ''http://collector/logs'',
       ContentType = ''application/json'', XAPIKey = ''key'',
       Body = Some (LogBody \<lparr>LogEntry.ServiceName = ''svc'', LogLevel = ''INFO'',
                Message = ''Operation completed: job'', TraceID = ''t1'', SpanID = ''s2'',
                Metadata = [''operation'' \<mapsto> AString ''job'',
                            ''duration_ms'' \<mapsto> ANumber 2]\<rparr>)\<rparr>,
      \<lparr>request.Method = ''POST'', URL = ''http://collector/spans/s2/end'',
       ContentType = ''application/json'', XAPIKey = ''key'', Body = None\<rparr>]"
proof -
  let ?e = "stub [ok_json [(''id'', AString ''s2'')], status 200, status 200]"
  let ?ctx = "WithValue Background (StringKey ''go-insight-trace'') (TraceContextPtr (Some 0))"
  let ?w = "fresh_world\<lparr>carriers := [\<lparr>TraceContext.TraceID = ''t1'', SpanID = ''s1''\<rparr>]\<rparr>"
  let ?r = "StartSpan ?e demo_client ?ctx ''job'' ?w"
  let ?sctx = "fst (projr (fst ?r))"
  let ?w1 = "snd ?r"
  let ?w2 = "snd (succeed ?sctx ?w1)"
  let ?w3 = "Instrument_log_result ?e demo_client ''job'' ?sctx None
               (Since (clock ?w2) (clock ?w1)) ?w2"
  let ?completion = "\<lparr>LogEntry.ServiceName = ''svc'', LogLevel = ''INFO'',
                Message = ''Operation completed: job'', TraceID = ''t1'', SpanID = ''s2'',
                Metadata = [''operation'' \<mapsto> AString ''job'', ''duration_ms'' \<mapsto> ANumber 2]\<rparr>"
  have start: "?r = (Inr (?sctx, None), ?w1)"
    by (simp add: eval_defs)
  have span: "?sctx = (if (None :: error option) = None then ?sctx else ?ctx)"
    by simp
  have run: "succeed ?sctx ?w1 = (Inr None, ?w2)"
    by (simp add: succeed_def)
  have len: "length (transport_calls ?w2) = 1"
    by (simp add: eval_defs succeed_def)
  have net2: "network_calls ?w2 =
                [\<lparr>request.Method = ''POST'', URL = ''http://collector/spans'',
                  ContentType = ''application/json'', XAPIKey = ''key'',
                  Body = Some (SpanBody \<lparr>Span.ID = [], TraceID = ''t1'', ParentID = ''s1'',
                           Service = ''svc'', Operation = ''job''\<rparr>)\<rparr>]"
    by (simp add: eval_defs succeed_def)
  have carrier: "GetTraceFromContext ?sctx = Some 1"
    by (simp add: eval_defs)
  have sid: "TraceContext.SpanID (carriers ?w2 ! 1) = ''s2''"
    by (simp add: eval_defs succeed_def)
  have comp: "completion_entry demo_client ?sctx ?w2 ''job''
                (Milliseconds (Since (clock ?w2) (clock ?w1))) None = ?completion"
    by (simp add: eval_defs succeed_def completion_entry_def entry_at_def)
  have fin: "fst (FinishSpan ?e demo_client ?sctx ?w3) = None"
    apply (simp add: StartSpan_def sendSpan_def sendRequestWithResponse_def stub_def ok_json_def
        status_def demo_client_def New_def fresh_world_def assert_string_def new_TraceContext_def
        GetTraceFromContext_def Let_def succeed_def)
    apply (simp add: Instrument_log_result_def make_map_def LogInfo_def Log_def sendLog_def
        sendRequest_def GetTraceFromContext_def Let_def)
    apply (simp add: sendRequestWithResponse_def Let_def map_contents_def)
    apply (simp add: FinishSpan_def endSpan_def sendRequest_def GetTraceFromContext_def)
    apply (simp add: sendRequestWithResponse_def Let_def)
    done
  have log_sent: "delivered ?e demo_client (''POST'', ''/logs'', Some (LogBody ?completion)) =
                    [\<lparr>request.Method = ''POST'', URL = ''http://collector/logs'',
                      ContentType = ''application/json'', XAPIKey = ''key'',
                      Body = Some (LogBody ?completion)\<rparr>]"
    by (simp add: delivered_def marshals_def http_request_def stub_def demo_client_def New_def)
  have end_sent: "delivered ?e demo_client (''POST'', ''/spans/'' @ ''s2'' @ ''/end'', None) =
                    [\<lparr>request.Method = ''POST'', URL = ''http://collector/spans/s2/end'',
                      ContentType = ''application/json'', XAPIKey = ''key'', Body = None\<rparr>]"
    by (simp add: delivered_def marshals_def http_request_def stub_def demo_client_def New_def)
  show ?thesis
    using Instrument_completion_log [where fn = succeed, OF start span run refl refl]
      len fin comp net2 carrier sid log_sent end_sent
    by simp
qed

text \<open>
  C4. On a context without a Carrier, the wrapper runs the operation once, on the
  context and the world it was given itself; it returns the operation's result; after
  the operation it hands the transport the completion log and the ERROR log that reports
  the failed \<open>FinishSpan\<close>, and nothing else. Each of the two is sent: the requests that
  reach the network after the operation are these two logs, each whenever its payload
  marshals and the request can be created, and no request for a span. The application
  state, the Carriers and the clock are as the operation left them.
\<close>

theorem Instrument_without_trace:
  assumes none: "GetTraceFromContext ctx = None"
    and run: "fn ctx w = (Inr fnErr, w2)"
    and completion: "completion = completion_entry c ctx w2 operation
                       (Milliseconds (Since (clock w2) (clock w))) fnErr"
    and failure: "failure = finish_failure_entry c ctx w2 operation
                    (Error ''no trace context found'')"
  shows "fst (Instrument e c operation fn ctx w) = Inr fnErr \<and>
         transport_calls (snd (Instrument e c operation fn ctx w)) =
           transport_calls w2 @
             [(''POST'', ''/logs'', Some (LogBody completion)),
              (''POST'', ''/logs'', Some (LogBody failure))] \<and>
         network_calls (snd (Instrument e c operation fn ctx w)) =
           network_calls w2 @
             delivered e c (''POST'', ''/logs'', Some (LogBody completion)) @
             delivered e c (''POST'', ''/logs'', Some (LogBody failure)) \<and>
         (json_Marshal_err e (LogBody completion) = None \<and>
          json_Marshal_err e (LogBody failure) = None \<and>
          http_NewRequest_err e ''POST'' (endpoint c @ ''/logs'') = None \<longrightarrow>
            network_calls (snd (Instrument e c operation fn ctx w)) =
              network_calls w2 @
                [\<lparr>request.Method = ''POST'', URL = endpoint c @ ''/logs'',
                  ContentType = ''application/json'', XAPIKey = apiKey c,
                  Body = Some (LogBody completion)\<rparr>,
                 \<lparr>request.Method = ''POST'', URL = endpoint c @ ''/logs'',
                  ContentType = ''application/json'', XAPIKey = apiKey c,
                  Body = Some (LogBody failure)\<rparr>]) \<and>
         app (snd (Instrument e c operation fn ctx w)) = app w2 \<and>
         carriers (snd (Instrument e c operation fn ctx w)) = carriers w2 \<and>
         clock (snd (Instrument e c operation fn ctx w)) = clock w2"
proof -
  let ?w3 = "Instrument_log_result e c operation ctx fnErr (Since (clock w2) (clock w)) w2"
  let ?d = "Instrument_deferred e c operation ctx ?w3"
  note r = Instrument_without_carrier [where fn = fn, OF none run, of e c operation]
  have snd_r: "snd (Instrument e c operation fn ctx w) = ?d"
    and fst_r: "fst (Instrument e c operation fn ctx w) = Inr fnErr"
    using r by simp_all
  have calls: "transport_calls ?d =
                 transport_calls w2 @
                   [(''POST'', ''/logs'', Some (LogBody completion)),
                    (''POST'', ''/logs'', Some (LogBody failure))]"
    using r by (simp add: completion failure)
  have net: "network_calls ?d =
               network_calls w2 @
                 delivered e c (''POST'', ''/logs'', Some (LogBody completion)) @
                 delivered e c (''POST'', ''/logs'', Some (LogBody failure))"
    using r by (simp add: completion failure)
  have sent: "json_Marshal_err e (LogBody completion) = None \<and>
              json_Marshal_err e (LogBody failure) = None \<and>
              http_NewRequest_err e ''POST'' (endpoint c @ ''/logs'') = None \<longrightarrow>
                network_calls ?d =
                  network_calls w2 @
                    [\<lparr>request.Method = ''POST'', URL = endpoint c @ ''/logs'',
                      ContentType = ''application/json'', XAPIKey = apiKey c,
                      Body = Some (LogBody completion)\<rparr>,
                     \<lparr>request.Method = ''POST'', URL = endpoint c @ ''/logs'',
                      ContentType = ''application/json'', XAPIKey = apiKey c,
                      Body = Some (LogBody failure)\<rparr>]"
    by (simp add: net delivered_def marshals_def http_request_def)
  have frame: "app ?d = app w2 \<and> carriers ?d = carriers w2 \<and> clock ?d = clock w2"
    by (simp add: Instrument_deferred_frame Instrument_log_result_frame)
  show ?thesis
    unfolding snd_r fst_r
    using calls net sent frame by blast
qed

theorem Instrument_without_trace_witness:
  "fst (Instrument (stub [status 200, status 200]) demo_client ''job'' succeed Background
          fresh_world) = Inr None \<and>
   transport_calls (snd (Instrument (stub [status 200, status 200]) demo_client ''job'' succeed
          Background fresh_world)) =
     [(''POST'', ''/logs'',
       Some (LogBody \<lparr>LogEntry.ServiceName = ''svc'', LogLevel = ''INFO'',
               Message = ''Operation completed: job'', TraceID = [], SpanID = [],
               Metadata = [''operation'' \<mapsto> AString ''job'', ''duration_ms'' \<mapsto> ANumber 2]\<rparr>)),
      (''POST'', ''/logs'',
       Some (LogBody \<lparr>LogEntry.ServiceName = ''svc'', LogLevel = ''ERROR'',
               Message = ''Failed to finish span'', TraceID = [], SpanID = [],
               Metadata = [''operation'' \<mapsto> AString ''job'',
                           ''error'' \<mapsto> AString ''no trace context found'']\<rparr>))] \<and>
   network_calls (snd (Instrument (stub [status 200, status 200]) demo_client ''job'' succeed
          Background fresh_world)) =
     [\<lparr>request.Method = ''POST'', URL = ''http://collector/logs'',
       ContentType = ''application/json'', XAPIKey = ''key'',
       Body = Some (LogBody \<lparr>LogEntry.ServiceName = ''svc'', LogLevel = ''INFO'',
                Message = ''Operation completed: job'', TraceID = [], SpanID = [],
                Metadata = [''operation'' \<mapsto> AString ''job'',
                            ''duration_ms'' \<mapsto> ANumber 2]\<rparr>)\<rparr>,
      \<lparr>request.Method = ''POST'', URL = ''http://collector/logs'',
       ContentType = ''application/json'', XAPIKey = ''key'',
       Body = Some (LogBody \<lparr>LogEntry.ServiceName = ''svc'', LogLevel = ''ERROR'',
                Message = ''Failed to finish span'', TraceID = [], SpanID = [],
                Metadata = [''operation'' \<mapsto> AString ''job'',
                            ''error'' \<mapsto> AString ''no trace context found'']\<rparr>)\<rparr>] \<and>
   app (snd (Instrument (stub [status 200, status 200]) demo_client ''job'' succeed Background
          fresh_world)) = 1"
proof -
  have none: "GetTraceFromContext Background = None"
    by (simp add: GetTraceFromContext_def)
  have run: "succeed Background fresh_world = (Inr None, snd (succeed Background fresh_world))"
    by (simp add: succeed_def)
  show ?thesis
    using Instrument_without_trace [where fn = succeed, OF none run refl refl,
        of "stub [status 200, status 200]" demo_client "''job''"]
    by (simp add: succeed_def fresh_world_def demo_client_def New_def completion_entry_def
        finish_failure_entry_def entry_at_def GetTraceFromContext_def Since_def Milliseconds_def
        delivered_def marshals_def http_request_def stub_def)
qed

end
